theory Spec2Isabelle
  imports Main "HOL-Library.Sublist"
begin

unbundle bit_operations_syntax

section \<open>Path strings\<close>

text \<open>
  The copy engine manipulates path strings through the platform path module
  (\<open>resolve\<close>, \<open>dirname\<close>, \<open>join\<close>, \<open>parse\<close>, \<open>isAbsolute\<close>, \<open>sep\<close>),
  which is not part of the copy sources. The functions below give its POSIX
  flavour; the process working directory is the explicit parameter \<open>cwd\<close>.
\<close>

text \<open>Modelled from the spec: the path separator \<open>sep\<close> of the path module
  (POSIX: the forward slash) on which paths are split.\<close>

definition sep :: char where
  "sep = CHR ''/''"

text \<open>JavaScript's \<open>String.prototype.split\<close> with a one-character separator:
  the pieces between the separators, empty pieces included.\<close>

fun splitOn :: "char \<Rightarrow> string \<Rightarrow> string list" where
  "splitOn c [] = [[]]"
| "splitOn c (x # xs) =
     (if x = c then [] # splitOn c xs
      else (case splitOn c xs of
              [] \<Rightarrow> [[x]]
            | y # ys \<Rightarrow> (x # y) # ys))"

text \<open>\<open>Array.prototype.join\<close> with the separator.\<close>

fun joinSep :: "string list \<Rightarrow> string" where
  "joinSep [] = []"
| "joinSep [s] = s"
| "joinSep (s # t # ts) = s @ sep # joinSep (t # ts)"

text \<open>Modelled from the spec: the normalisation inside \<open>resolve\<close> and \<open>join\<close>
  (canonical form): empty and \<open>.\<close> segments vanish, a \<open>..\<close> segment removes
  the segment before it; above the start it is kept only when \<open>allowAboveRoot\<close>.
  The stack holds the segments kept so far, last one first.\<close>

fun normSegs :: "bool \<Rightarrow> string list \<Rightarrow> string list \<Rightarrow> string list" where
  "normSegs allowAboveRoot stack [] = stack"
| "normSegs allowAboveRoot stack (s # ss) =
     (if s = [] \<or> s = ''.'' then normSegs allowAboveRoot stack ss
      else if s = ''..'' then
        (case stack of
           [] \<Rightarrow> normSegs allowAboveRoot (if allowAboveRoot then [''..''] else []) ss
         | t # ts \<Rightarrow>
             if t \<noteq> ''..'' then normSegs allowAboveRoot ts ss
             else normSegs allowAboveRoot (if allowAboveRoot then s # stack else stack) ss)
      else normSegs allowAboveRoot (s # stack) ss)"

definition normalizeString :: "string \<Rightarrow> bool \<Rightarrow> string" where
  "normalizeString path allowAboveRoot =
     joinSep (rev (normSegs allowAboveRoot [] (splitOn sep path)))"

text \<open>Modelled from the spec: \<open>isAbsolute\<close> of the path module.\<close>

definition isAbsolute :: "string \<Rightarrow> bool" where
  "isAbsolute path = (case path of [] \<Rightarrow> False | c # _ \<Rightarrow> c = sep)"

text \<open>The right-to-left scan of \<open>resolve\<close>: the arguments are visited from the
  last one to the first and then the working directory, empty ones skipped,
  until an absolute one has been prepended.\<close>

fun resolveScan :: "string list \<Rightarrow> string \<Rightarrow> string \<times> bool" where
  "resolveScan [] resolvedPath = (resolvedPath, False)"
| "resolveScan (path # rest) resolvedPath =
     (if path = [] then resolveScan rest resolvedPath
      else if isAbsolute path then (path @ sep # resolvedPath, True)
      else resolveScan rest (path @ sep # resolvedPath))"

text \<open>Modelled from the spec: \<open>resolve\<close> of the path module, which brings a
  sequence of paths to absolute canonical form.\<close>

definition resolve :: "string \<Rightarrow> string list \<Rightarrow> string" where
  "resolve cwd args =
     (case resolveScan (rev args @ [cwd]) [] of
        (resolvedPath, resolvedAbsolute) \<Rightarrow>
          (let normalized = normalizeString resolvedPath (\<not> resolvedAbsolute)
           in if resolvedAbsolute then sep # normalized
              else if normalized \<noteq> [] then normalized else ''.''))"

text \<open>Modelled from the spec: \<open>dirname\<close> of the path module, the parent of a
  path. Scanning from the end and never looking at the first character, trailing
  separators and then the last segment are dropped; what is left ends with the
  separator that the result excludes.\<close>

definition dirname :: "string \<Rightarrow> string" where
  "dirname path =
     (case path of
        [] \<Rightarrow> ''.''
      | c # cs \<Rightarrow>
          (let hasRoot = (c = sep);
               upto = rev (dropWhile (\<lambda>x. x \<noteq> sep) (dropWhile (\<lambda>x. x = sep) (rev cs)))
           in if upto = [] then (if hasRoot then ''/'' else ''.'')
              else if hasRoot \<and> length upto = 1 then ''//''
              else c # butlast upto))"

text \<open>Modelled from the spec: \<open>parse(path).root\<close>, the root of a path's
  decomposition.\<close>

definition parseRoot :: "string \<Rightarrow> string" where
  "parseRoot path = (if isAbsolute path then ''/'' else [])"

text \<open>Modelled from the spec: \<open>normalize\<close> and \<open>join\<close> of the path module,
  used to form the paths of a directory's children.\<close>

definition normalize :: "string \<Rightarrow> string" where
  "normalize path =
     (if path = [] then ''.''
      else let isAbs = isAbsolute path;
               trailingSeparator = (last path = sep);
               p = normalizeString path (\<not> isAbs)
           in if p = [] then (if isAbs then ''/'' else if trailingSeparator then ''./'' else ''.'')
              else (if isAbs then [sep] else []) @ p @ (if trailingSeparator then [sep] else []))"

definition join :: "string \<Rightarrow> string \<Rightarrow> string" where
  "join a b =
     (let joined = joinSep (filter (\<lambda>s. s \<noteq> []) [a, b])
      in if joined = [] then ''.'' else normalize joined)"

section \<open>Path-identity predicates\<close>

text \<open>Reading an array at an index: \<open>None\<close> is JavaScript's \<open>undefined\<close> past
  the end.\<close>

definition jsIndex :: "'a list \<Rightarrow> nat \<Rightarrow> 'a option" where
  "jsIndex xs i = (if i < length xs then Some (xs ! i) else None)"

text \<open>copy.js: \<open>normalizePathToArray\<close>.\<close>

definition normalizePathToArray :: "string \<Rightarrow> string \<Rightarrow> string list" where
  "normalizePathToArray cwd path = filter (\<lambda>s. s \<noteq> []) (splitOn sep (resolve cwd [path]))"

text \<open>copy.js: \<open>isSrcSubdir\<close>, with \<open>ArrayPrototypeEvery\<close> over value and index.\<close>

definition isSrcSubdir :: "string \<Rightarrow> string \<Rightarrow> string \<Rightarrow> bool" where
  "isSrcSubdir cwd src dest =
     (let srcArr = normalizePathToArray cwd src;
          destArr = normalizePathToArray cwd dest
      in list_all (\<lambda>(i, cur). jsIndex destArr i = Some cur) (enumerate 0 srcArr))"

text \<open>Callback dialect: \<open>isSrcSubdir\<close>, with \<open>reduce\<close> over accumulator, value
  and index.\<close>

definition isSrcSubdir_cb :: "string \<Rightarrow> string \<Rightarrow> string \<Rightarrow> bool" where
  "isSrcSubdir_cb cwd src dest =
     (let srcArr = filter (\<lambda>i. i \<noteq> []) (splitOn sep (resolve cwd [src]));
          destArr = filter (\<lambda>i. i \<noteq> []) (splitOn sep (resolve cwd [dest]))
      in foldl (\<lambda>acc (i, cur). acc \<and> jsIndex destArr i = Some cur) True (enumerate 0 srcArr))"

section \<open>Data model\<close>

text \<open>A stat record: the kind of the entry (what \<open>isDirectory()\<close>, \<open>isFile()\<close>,
  ... report; exactly one holds), the mode bits, the times, and the device and
  inode numbers used for identity.\<close>

datatype fkind =
  RegularFile | Directory | SymbolicLink | BlockDevice | CharacterDevice | Socket | FIFO
  | UnknownKind

record stats =
  st_kind :: fkind
  st_mode :: int
  st_atime :: int
  st_mtime :: int
  st_dev :: nat
  st_ino :: nat

definition isDirectory :: "stats \<Rightarrow> bool" where
  "isDirectory st = (st_kind st = Directory)"

definition isFile :: "stats \<Rightarrow> bool" where
  "isFile st = (st_kind st = RegularFile)"

definition isCharacterDevice :: "stats \<Rightarrow> bool" where
  "isCharacterDevice st = (st_kind st = CharacterDevice)"

definition isBlockDevice :: "stats \<Rightarrow> bool" where
  "isBlockDevice st = (st_kind st = BlockDevice)"

definition isSymbolicLink :: "stats \<Rightarrow> bool" where
  "isSymbolicLink st = (st_kind st = SymbolicLink)"

definition isSocket :: "stats \<Rightarrow> bool" where
  "isSocket st = (st_kind st = Socket)"

definition isFIFO :: "stats \<Rightarrow> bool" where
  "isFIFO st = (st_kind st = FIFO)"

text \<open>The options bag. The filter is taken as a pure predicate on the two paths.\<close>

record opts =
  dereference :: bool
  preserveTimestamps :: bool
  force :: bool
  overwrite :: bool
  errorOnExist :: bool
  filterFn :: "(string \<Rightarrow> string \<Rightarrow> bool) option"

text \<open>Errors as values. A \<open>CopyError\<close> is one of the engine's own error classes
  with the information object it was built from; a \<open>SystemError\<close> is an error raised
  by a filesystem call, identified by its \<open>code\<close>; \<open>TypeError\<close> is the language's
  error for calling something that is not a function. \<open>Diverges\<close> is not an error of
  the program: it marks a run that did not return (within the nesting bound given to
  the directory recursion).\<close>

datatype errno = EEXIST | EISDIR | EINVAL | ENOTDIR

datatype copy_code =
  ERR_FS_COPY_DIR_TO_NON_DIR
  | ERR_FS_COPY_EEXIST
  | ERR_FS_COPY_FIFO_PIPE
  | ERR_FS_COPY_NON_DIR_TO_DIR
  | ERR_FS_COPY_SOCKET
  | ERR_FS_COPY_SYMLINK_TO_SUBDIRECTORY
  | ERR_FS_COPY_TO_SUBDIRECTORY
  | ERR_FS_COPY_UNKNOWN

record info =
  e_code :: string
  e_message :: string
  e_path :: string
  e_syscall :: string
  e_errno :: errno

datatype error =
  CopyError copy_code info
  | SystemError string
  | TypeError string
  | Diverges

text \<open>copy.js and the callback dialect: \<open>areIdentical\<close>. The inode and device
  numbers are wide integers; zero is falsy.\<close>

definition areIdentical :: "stats \<Rightarrow> stats \<Rightarrow> bool" where
  "areIdentical srcStat destStat =
     (st_ino destStat \<noteq> 0 \<and> st_dev destStat \<noteq> 0 \<and> st_ino destStat = st_ino srcStat \<and>
      st_dev destStat = st_dev srcStat)"

section \<open>The ambient filesystem\<close>

text \<open>
  The filesystem API is an external collaborator, so it is a parameter: a record of
  operations over an abstract filesystem state \<open>'fs\<close>. A read returns an error or a
  value; a mutating call returns an error (the state is then unchanged) or the new
  state. \<open>sys_cwd\<close> is the process working directory.
\<close>

type_synonym fd = nat

record 'fs sys =
  sys_cwd :: string
  fs_stat :: "'fs \<Rightarrow> string \<Rightarrow> error + stats"
  fs_lstat :: "'fs \<Rightarrow> string \<Rightarrow> error + stats"
  fs_readlink :: "'fs \<Rightarrow> string \<Rightarrow> error + string"
  fs_readdir :: "'fs \<Rightarrow> string \<Rightarrow> error + string list"
  fs_exists :: "'fs \<Rightarrow> string \<Rightarrow> bool"
  fs_mkdir :: "'fs \<Rightarrow> string \<Rightarrow> bool \<Rightarrow> error + 'fs"
  fs_unlink :: "'fs \<Rightarrow> string \<Rightarrow> error + 'fs"
  fs_symlink :: "'fs \<Rightarrow> string \<Rightarrow> string \<Rightarrow> error + 'fs"
  fs_chmod :: "'fs \<Rightarrow> string \<Rightarrow> int \<Rightarrow> error + 'fs"
  fs_copyFile :: "'fs \<Rightarrow> string \<Rightarrow> string \<Rightarrow> error + 'fs"
  fs_open :: "'fs \<Rightarrow> string \<Rightarrow> string \<Rightarrow> error + fd \<times> 'fs"
  fs_futimes :: "'fs \<Rightarrow> fd \<Rightarrow> int \<Rightarrow> int \<Rightarrow> error + 'fs"
  fs_close :: "'fs \<Rightarrow> fd \<Rightarrow> error + 'fs"

text \<open>The calls that change the filesystem or hold a resource, as they are issued.
  \<open>Mkdir p r\<close> carries the \<open>recursive\<close> flag, \<open>Symlink t p\<close> the target and the
  path of the link, \<open>Open p flags\<close> the path and the flags.\<close>

datatype syscall =
  Mkdir string bool
  | Unlink string
  | Symlink string string
  | Chmod string int
  | CopyFile string string
  | Open string string
  | Futimes fd int int
  | Close fd

text \<open>A world is the filesystem state together with the log of the calls issued so
  far, oldest first. A computation takes a world and returns an error or a value,
  and the world it left behind.\<close>

type_synonym 'fs world = "'fs \<times> syscall list"

type_synonym ('a, 'fs) io = "'fs world \<Rightarrow> (error + 'a) \<times> 'fs world"

definition returnIO :: "'a \<Rightarrow> ('a, 'fs) io" where
  "returnIO a = (\<lambda>w. (Inr a, w))"

definition throwIO :: "error \<Rightarrow> ('a, 'fs) io" where
  "throwIO e = (\<lambda>w. (Inl e, w))"

text \<open>Sequencing: the second step runs in the world the first one left, and not at
  all when the first one failed.\<close>

definition bindIO :: "('a, 'fs) io \<Rightarrow> ('a \<Rightarrow> ('b, 'fs) io) \<Rightarrow> ('b, 'fs) io" where
  "bindIO m k = (\<lambda>w. case m w of (Inl e, w') \<Rightarrow> (Inl e, w') | (Inr a, w') \<Rightarrow> k a w')"

text \<open>\<open>try { m } catch (err) { h err }\<close>.\<close>

definition catchIO :: "('a, 'fs) io \<Rightarrow> (error \<Rightarrow> ('a, 'fs) io) \<Rightarrow> ('a, 'fs) io" where
  "catchIO m h = (\<lambda>w. case m w of (Inl e, w') \<Rightarrow> h e w' | (Inr a, w') \<Rightarrow> (Inr a, w'))"

text \<open>\<open>try { m } finally { fin }\<close>: \<open>fin\<close> runs on both exits; its own error
  replaces the outcome of \<open>m\<close>.\<close>

definition finallyIO :: "('a, 'fs) io \<Rightarrow> (unit, 'fs) io \<Rightarrow> ('a, 'fs) io" where
  "finallyIO m fin =
     (\<lambda>w. case m w of
            (r, w') \<Rightarrow> (case fin w' of (Inl e, w'') \<Rightarrow> (Inl e, w'') | (Inr u, w'') \<Rightarrow> (r, w'')))"

text \<open>\<open>err.code\<close> of a caught error: the code of a filesystem error, the class name
  of one of the engine's own errors; the empty string stands for \<open>undefined\<close>.\<close>

fun codeName :: "copy_code \<Rightarrow> string" where
  "codeName ERR_FS_COPY_DIR_TO_NON_DIR = ''ERR_FS_COPY_DIR_TO_NON_DIR''"
| "codeName ERR_FS_COPY_EEXIST = ''ERR_FS_COPY_EEXIST''"
| "codeName ERR_FS_COPY_FIFO_PIPE = ''ERR_FS_COPY_FIFO_PIPE''"
| "codeName ERR_FS_COPY_NON_DIR_TO_DIR = ''ERR_FS_COPY_NON_DIR_TO_DIR''"
| "codeName ERR_FS_COPY_SOCKET = ''ERR_FS_COPY_SOCKET''"
| "codeName ERR_FS_COPY_SYMLINK_TO_SUBDIRECTORY = ''ERR_FS_COPY_SYMLINK_TO_SUBDIRECTORY''"
| "codeName ERR_FS_COPY_TO_SUBDIRECTORY = ''ERR_FS_COPY_TO_SUBDIRECTORY''"
| "codeName ERR_FS_COPY_UNKNOWN = ''ERR_FS_COPY_UNKNOWN''"

fun errCode :: "error \<Rightarrow> string" where
  "errCode (SystemError c) = c"
| "errCode (CopyError c i) = codeName c"
| "errCode (TypeError m) = []"
| "errCode Diverges = []"

definition readIO :: "('fs \<Rightarrow> error + 'a) \<Rightarrow> ('a, 'fs) io" where
  "readIO g = (\<lambda>w. (g (fst w), w))"

definition callIO :: "syscall \<Rightarrow> ('fs \<Rightarrow> error + 'fs) \<Rightarrow> (unit, 'fs) io" where
  "callIO c g =
     (\<lambda>w. case g (fst w) of
            Inl e \<Rightarrow> (Inl e, (fst w, snd w @ [c]))
          | Inr f \<Rightarrow> (Inr (), (f, snd w @ [c])))"

definition io_stat :: "'fs sys \<Rightarrow> string \<Rightarrow> (stats, 'fs) io" where
  "io_stat api p = readIO (\<lambda>f. fs_stat api f p)"

definition io_lstat :: "'fs sys \<Rightarrow> string \<Rightarrow> (stats, 'fs) io" where
  "io_lstat api p = readIO (\<lambda>f. fs_lstat api f p)"

definition io_readlink :: "'fs sys \<Rightarrow> string \<Rightarrow> (string, 'fs) io" where
  "io_readlink api p = readIO (\<lambda>f. fs_readlink api f p)"

definition io_readdir :: "'fs sys \<Rightarrow> string \<Rightarrow> (string list, 'fs) io" where
  "io_readdir api p = readIO (\<lambda>f. fs_readdir api f p)"

definition io_exists :: "'fs sys \<Rightarrow> string \<Rightarrow> (bool, 'fs) io" where
  "io_exists api p = readIO (\<lambda>f. Inr (fs_exists api f p))"

definition io_mkdir :: "'fs sys \<Rightarrow> string \<Rightarrow> bool \<Rightarrow> (unit, 'fs) io" where
  "io_mkdir api p recursive = callIO (Mkdir p recursive) (\<lambda>f. fs_mkdir api f p recursive)"

definition io_unlink :: "'fs sys \<Rightarrow> string \<Rightarrow> (unit, 'fs) io" where
  "io_unlink api p = callIO (Unlink p) (\<lambda>f. fs_unlink api f p)"

definition io_symlink :: "'fs sys \<Rightarrow> string \<Rightarrow> string \<Rightarrow> (unit, 'fs) io" where
  "io_symlink api target p = callIO (Symlink target p) (\<lambda>f. fs_symlink api f target p)"

definition io_chmod :: "'fs sys \<Rightarrow> string \<Rightarrow> int \<Rightarrow> (unit, 'fs) io" where
  "io_chmod api p m = callIO (Chmod p m) (\<lambda>f. fs_chmod api f p m)"

definition io_copyFile :: "'fs sys \<Rightarrow> string \<Rightarrow> string \<Rightarrow> (unit, 'fs) io" where
  "io_copyFile api src dest = callIO (CopyFile src dest) (\<lambda>f. fs_copyFile api f src dest)"

definition io_open :: "'fs sys \<Rightarrow> string \<Rightarrow> string \<Rightarrow> (fd, 'fs) io" where
  "io_open api p flags =
     (\<lambda>w. case fs_open api (fst w) p flags of
            Inl e \<Rightarrow> (Inl e, (fst w, snd w @ [Open p flags]))
          | Inr (d, f) \<Rightarrow> (Inr d, (f, snd w @ [Open p flags])))"

definition io_futimes :: "'fs sys \<Rightarrow> fd \<Rightarrow> int \<Rightarrow> int \<Rightarrow> (unit, 'fs) io" where
  "io_futimes api d a m = callIO (Futimes d a m) (\<lambda>f. fs_futimes api f d a m)"

definition io_close :: "'fs sys \<Rightarrow> fd \<Rightarrow> (unit, 'fs) io" where
  "io_close api d = callIO (Close d) (\<lambda>f. fs_close api f d)"

section \<open>The blocking dialect (copy-sync.js)\<close>

text \<open>The type of the dispatcher that the directory copier calls for each child.\<close>

type_synonym 'fs copier = "stats option \<Rightarrow> string \<Rightarrow> string \<Rightarrow> opts \<Rightarrow> (unit, 'fs) io"

text \<open>\<open>Array.prototype.forEach\<close> with a callback that may throw: the elements in
  order, stopping at the first one that throws.\<close>

fun forEach :: "'a list \<Rightarrow> ('a \<Rightarrow> (unit, 'fs) io) \<Rightarrow> (unit, 'fs) io" where
  "forEach [] f = returnIO ()"
| "forEach (x # xs) f = bindIO (f x) (\<lambda>_. forEach xs f)"

definition getStatsSync :: "'fs sys \<Rightarrow> string \<Rightarrow> string \<Rightarrow> opts \<Rightarrow> (stats \<times> stats option, 'fs) io" where
  "getStatsSync api src dest opts =
     (let statFunc = (if dereference opts then io_stat api else io_lstat api)
      in bindIO (statFunc src) (\<lambda>srcStat.
           catchIO (bindIO (statFunc dest) (\<lambda>destStat. returnIO (srcStat, Some destStat)))
             (\<lambda>err. if errCode err = ''ENOENT'' then returnIO (srcStat, None) else throwIO err)))"

definition checkPathsSync :: "'fs sys \<Rightarrow> string \<Rightarrow> string \<Rightarrow> opts \<Rightarrow> (stats \<times> stats option, 'fs) io" where
  "checkPathsSync api src dest opts =
     bindIO (getStatsSync api src dest opts) (\<lambda>(srcStat, destStat).
       bindIO
         (case destStat of
            None \<Rightarrow> returnIO ()
          | Some dstat \<Rightarrow>
              if areIdentical srcStat dstat then
                throwIO (CopyError ERR_FS_COPY_TO_SUBDIRECTORY
                  \<lparr>e_code = ''EINVAL'', e_message = ''src and dest cannot be the same directory'',
                   e_path = dest, e_syscall = ''copy'', e_errno = EINVAL\<rparr>)
              else if isDirectory srcStat \<and> \<not> isDirectory dstat then
                throwIO (CopyError ERR_FS_COPY_DIR_TO_NON_DIR
                  \<lparr>e_code = ''EISDIR'',
                   e_message = ''cannot overwrite directory '' @ src @ '' with non-directory '' @ dest,
                   e_path = dest, e_syscall = ''copy'', e_errno = EISDIR\<rparr>)
              else if \<not> isDirectory srcStat \<and> isDirectory dstat then
                throwIO (CopyError ERR_FS_COPY_NON_DIR_TO_DIR
                  \<lparr>e_code = ''ENOTDIR'',
                   e_message = ''cannot overwrite non-directory '' @ src @ '' with directory '' @ dest,
                   e_path = dest, e_syscall = ''copy'', e_errno = ENOTDIR\<rparr>)
              else returnIO ())
         (\<lambda>_. if isDirectory srcStat \<and> isSrcSubdir (sys_cwd api) src dest then
                throwIO (CopyError ERR_FS_COPY_TO_SUBDIRECTORY
                  \<lparr>e_code = ''EINVAL'',
                   e_message = ''cannot copy '' @ src @ '' to a subdirectory of self '' @ dest,
                   e_path = dest, e_syscall = ''copy'', e_errno = EINVAL\<rparr>)
              else returnIO (srcStat, destStat)))"

text \<open>The ancestor walk only reads, so it takes the filesystem state and returns the
  outcome; \<open>None\<close> is a walk that does not return.\<close>

partial_function (option) checkParentPathsSync ::
  "'fs sys \<Rightarrow> string \<Rightarrow> stats \<Rightarrow> string \<Rightarrow> 'fs \<Rightarrow> (error + unit) option" where
  "checkParentPathsSync api src srcStat dest f =
     (let srcParent = resolve (sys_cwd api) [dirname src];
          destParent = resolve (sys_cwd api) [dirname dest]
      in if destParent = srcParent \<or> destParent = parseRoot destParent then Some (Inr ())
         else (case fs_stat api f destParent of
                 Inl err \<Rightarrow> if errCode err = ''ENOENT'' then Some (Inr ()) else Some (Inl err)
               | Inr destStat \<Rightarrow>
                   if areIdentical srcStat destStat then
                     Some (Inl (CopyError ERR_FS_COPY_TO_SUBDIRECTORY
                       \<lparr>e_code = ''EINVAL'',
                        e_message = ''cannot copy '' @ src @ '' to a subdirectory of self '' @ dest,
                        e_path = dest, e_syscall = ''copy'', e_errno = EINVAL\<rparr>))
                   else checkParentPathsSync api src srcStat destParent f))"

declare checkParentPathsSync.simps [code]

text \<open>Running a read-only walk inside a computation.\<close>

definition walkIO :: "('fs \<Rightarrow> (error + unit) option) \<Rightarrow> (unit, 'fs) io" where
  "walkIO g = (\<lambda>w. case g (fst w) of None \<Rightarrow> (Inl Diverges, w) | Some r \<Rightarrow> (r, w))"

text \<open>The owner-write bit \<open>0o200\<close> is 128.\<close>

definition fileIsNotWritable :: "int \<Rightarrow> bool" where
  "fileIsNotWritable srcMode = (srcMode AND 128 = 0)"

definition setDestMode_s :: "'fs sys \<Rightarrow> string \<Rightarrow> int \<Rightarrow> (unit, 'fs) io" where
  "setDestMode_s api dest srcMode = io_chmod api dest srcMode"

definition makeFileWritable_s :: "'fs sys \<Rightarrow> string \<Rightarrow> int \<Rightarrow> (unit, 'fs) io" where
  "makeFileWritable_s api dest srcMode = setDestMode_s api dest (srcMode OR 128)"

definition utimesMillisSync :: "'fs sys \<Rightarrow> string \<Rightarrow> int \<Rightarrow> int \<Rightarrow> (unit, 'fs) io" where
  "utimesMillisSync api p atime mtime =
     bindIO (io_open api p ''r+'') (\<lambda>d.
       bindIO (io_futimes api d atime mtime) (\<lambda>_.
         io_close api d))"

definition setDestTimestamps_s :: "'fs sys \<Rightarrow> string \<Rightarrow> string \<Rightarrow> (unit, 'fs) io" where
  "setDestTimestamps_s api src dest =
     bindIO (io_stat api src) (\<lambda>updatedSrcStat.
       utimesMillisSync api dest (st_atime updatedSrcStat) (st_mtime updatedSrcStat))"

definition handleTimestamps_s :: "'fs sys \<Rightarrow> int \<Rightarrow> string \<Rightarrow> string \<Rightarrow> (unit, 'fs) io" where
  "handleTimestamps_s api srcMode src dest =
     bindIO (if fileIsNotWritable srcMode then makeFileWritable_s api dest srcMode else returnIO ())
       (\<lambda>_. setDestTimestamps_s api src dest)"

definition copyFile_s :: "'fs sys \<Rightarrow> stats \<Rightarrow> string \<Rightarrow> string \<Rightarrow> opts \<Rightarrow> (unit, 'fs) io" where
  "copyFile_s api srcStat src dest opts =
     bindIO (io_copyFile api src dest) (\<lambda>_.
       bindIO (if preserveTimestamps opts then handleTimestamps_s api (st_mode srcStat) src dest
               else returnIO ())
         (\<lambda>_. setDestMode_s api dest (st_mode srcStat)))"

definition mayCopyFile_s :: "'fs sys \<Rightarrow> stats \<Rightarrow> string \<Rightarrow> string \<Rightarrow> opts \<Rightarrow> (unit, 'fs) io" where
  "mayCopyFile_s api srcStat src dest opts =
     (if overwrite opts then
        bindIO (io_unlink api dest) (\<lambda>_. copyFile_s api srcStat src dest opts)
      else if errorOnExist opts then
        throwIO (CopyError ERR_FS_COPY_EEXIST
          \<lparr>e_code = ''EEXIST'', e_message = dest @ '' already exists'',
           e_path = dest, e_syscall = ''copy'', e_errno = EEXIST\<rparr>)
      else returnIO ())"

definition onFile_s ::
  "'fs sys \<Rightarrow> stats \<Rightarrow> stats option \<Rightarrow> string \<Rightarrow> string \<Rightarrow> opts \<Rightarrow> (unit, 'fs) io" where
  "onFile_s api srcStat destStat src dest opts =
     (if destStat = None then copyFile_s api srcStat src dest opts
      else mayCopyFile_s api srcStat src dest opts)"

definition copyLink_s :: "'fs sys \<Rightarrow> string \<Rightarrow> string \<Rightarrow> (unit, 'fs) io" where
  "copyLink_s api resolvedSrc dest =
     bindIO (io_unlink api dest) (\<lambda>_. io_symlink api resolvedSrc dest)"

text \<open>\<open>try { r = readlinkSync(dest) } catch (err) { ... }\<close>: \<open>None\<close> stands for the
  caught \<open>EINVAL\<close> or \<open>UNKNOWN\<close> (the destination is there and is not a link); any
  other error is thrown on.\<close>

definition readlinkDest :: "'fs sys \<Rightarrow> string \<Rightarrow> (string option, 'fs) io" where
  "readlinkDest api dest =
     catchIO (bindIO (io_readlink api dest) (\<lambda>r. returnIO (Some r)))
       (\<lambda>err. if errCode err = ''EINVAL'' \<or> errCode err = ''UNKNOWN'' then returnIO None
              else throwIO err)"

definition onLink_s :: "'fs sys \<Rightarrow> stats option \<Rightarrow> string \<Rightarrow> string \<Rightarrow> opts \<Rightarrow> (unit, 'fs) io" where
  "onLink_s api destStat src dest opts =
     bindIO (io_readlink api src) (\<lambda>resolvedSrc0.
       let resolvedSrc = (if dereference opts then resolve (sys_cwd api) [sys_cwd api, resolvedSrc0]
                          else resolvedSrc0)
       in if destStat = None then io_symlink api resolvedSrc dest
          else bindIO (readlinkDest api dest) (\<lambda>rd.
            case rd of
              None \<Rightarrow> io_symlink api resolvedSrc dest
            | Some resolvedDest0 \<Rightarrow>
                (let resolvedDest =
                       (if dereference opts then resolve (sys_cwd api) [sys_cwd api, resolvedDest0]
                        else resolvedDest0)
                 in if isSrcSubdir (sys_cwd api) resolvedSrc resolvedDest then
                      throwIO (CopyError ERR_FS_COPY_TO_SUBDIRECTORY
                        \<lparr>e_code = ''EINVAL'',
                         e_message = ''cannot copy '' @ resolvedSrc @
                           '' to a subdirectory of self '' @ resolvedDest,
                         e_path = dest, e_syscall = ''copy'', e_errno = EINVAL\<rparr>)
                    else
                      bindIO (io_stat api dest) (\<lambda>st.
                        if isDirectory st \<and> isSrcSubdir (sys_cwd api) resolvedDest resolvedSrc then
                          throwIO (CopyError ERR_FS_COPY_SYMLINK_TO_SUBDIRECTORY
                            \<lparr>e_code = ''EINVAL'',
                             e_message = ''cannot overwrite '' @ resolvedDest @ '' with '' @
                               resolvedSrc,
                             e_path = dest, e_syscall = ''copy'', e_errno = EINVAL\<rparr>)
                        else copyLink_s api resolvedSrc dest))))"

text \<open>\<open>opts.filter && !opts.filter(src, dest)\<close>.\<close>

definition filteredOut :: "opts \<Rightarrow> string \<Rightarrow> string \<Rightarrow> bool" where
  "filteredOut opts src dest =
     (case filterFn opts of None \<Rightarrow> False | Some flt \<Rightarrow> \<not> flt src dest)"

definition startCopy_s :: "'fs copier \<Rightarrow> 'fs copier" where
  "startCopy_s getStats destStat src dest opts =
     (if filteredOut opts src dest then returnIO ()
      else getStats destStat src dest opts)"

definition copyDirItem_s ::
  "'fs copier \<Rightarrow> 'fs sys \<Rightarrow> string \<Rightarrow> string \<Rightarrow> string \<Rightarrow> opts \<Rightarrow> (unit, 'fs) io" where
  "copyDirItem_s getStats api item src dest opts =
     (let srcItem = join src item;
          destItem = join dest item
      in bindIO (checkPathsSync api srcItem destItem opts) (\<lambda>(srcStat, destStat).
           startCopy_s getStats destStat srcItem destItem opts))"

definition copyDir_s :: "'fs copier \<Rightarrow> 'fs sys \<Rightarrow> string \<Rightarrow> string \<Rightarrow> opts \<Rightarrow> (unit, 'fs) io" where
  "copyDir_s getStats api src dest opts =
     bindIO (io_readdir api src) (\<lambda>items.
       forEach items (\<lambda>item. copyDirItem_s getStats api item src dest opts))"

definition mkDirAndCopy_s ::
  "'fs copier \<Rightarrow> 'fs sys \<Rightarrow> int \<Rightarrow> string \<Rightarrow> string \<Rightarrow> opts \<Rightarrow> (unit, 'fs) io" where
  "mkDirAndCopy_s getStats api srcMode src dest opts =
     bindIO (io_mkdir api dest False) (\<lambda>_.
       bindIO (copyDir_s getStats api src dest opts) (\<lambda>_.
         setDestMode_s api dest srcMode))"

definition onDir_s ::
  "'fs copier \<Rightarrow> 'fs sys \<Rightarrow> stats \<Rightarrow> stats option \<Rightarrow> string \<Rightarrow> string \<Rightarrow> opts \<Rightarrow> (unit, 'fs) io"
  where
  "onDir_s getStats api srcStat destStat src dest opts =
     (if destStat = None then mkDirAndCopy_s getStats api (st_mode srcStat) src dest opts
      else copyDir_s getStats api src dest opts)"

text \<open>The body of \<open>getStats\<close>, the type dispatcher; \<open>self\<close> is the dispatcher that
  the directory copier uses for the children.\<close>

definition getStatsBody_s :: "'fs copier \<Rightarrow> 'fs sys \<Rightarrow> 'fs copier" where
  "getStatsBody_s self api destStat src dest opts =
     bindIO ((if dereference opts then io_stat api else io_lstat api) src) (\<lambda>srcStat.
       if isDirectory srcStat then onDir_s self api srcStat destStat src dest opts
       else if isFile srcStat \<or> isCharacterDevice srcStat \<or> isBlockDevice srcStat then
         onFile_s api srcStat destStat src dest opts
       else if isSymbolicLink srcStat then onLink_s api destStat src dest opts
       else if isSocket srcStat then
         throwIO (CopyError ERR_FS_COPY_SOCKET
           \<lparr>e_code = ''EINVAL'', e_message = ''cannot copy a socket file: '' @ dest,
            e_path = dest, e_syscall = ''copy'', e_errno = EINVAL\<rparr>)
       else if isFIFO srcStat then
         throwIO (CopyError ERR_FS_COPY_FIFO_PIPE
           \<lparr>e_code = ''EINVAL'', e_message = ''cannot copy a FIFO pipe: '' @ dest,
            e_path = dest, e_syscall = ''copy'', e_errno = EINVAL\<rparr>)
       else
         throwIO (CopyError ERR_FS_COPY_UNKNOWN
           \<lparr>e_code = ''EINVAL'', e_message = ''cannot copy a unknown file type: '' @ dest,
            e_path = dest, e_syscall = ''copy'', e_errno = EINVAL\<rparr>))"

text \<open>\<open>getStats\<close> with a bound on the nesting of directories: each level of
  directory recursion uses up one unit, and a run that needs more is \<open>Diverges\<close>.\<close>

primrec getStats_s :: "nat \<Rightarrow> 'fs sys \<Rightarrow> 'fs copier" where
  "getStats_s 0 api = (\<lambda>destStat src dest opts. throwIO Diverges)"
| "getStats_s (Suc n) api = getStatsBody_s (getStats_s n api) api"

definition handleFilterAndCopy_s :: "'fs copier \<Rightarrow> 'fs sys \<Rightarrow> 'fs copier" where
  "handleFilterAndCopy_s getStats api destStat src dest opts =
     (if filteredOut opts src dest then returnIO ()
      else (let destParent = dirname dest
            in bindIO (io_exists api destParent) (\<lambda>ex.
                 bindIO (if \<not> ex then io_mkdir api destParent True else returnIO ()) (\<lambda>_.
                   getStats destStat src dest opts))))"

text \<open>The entry point. The warning about \<open>preserveTimestamps\<close> on a 32-bit host
  touches no file and is left out. \<open>depth\<close> bounds the nesting of directories.\<close>

definition copySyncFn :: "nat \<Rightarrow> 'fs sys \<Rightarrow> string \<Rightarrow> string \<Rightarrow> opts \<Rightarrow> (unit, 'fs) io" where
  "copySyncFn depth api src dest opts =
     bindIO (checkPathsSync api src dest opts) (\<lambda>(srcStat, destStat).
       bindIO (walkIO (checkParentPathsSync api src srcStat dest)) (\<lambda>_.
         handleFilterAndCopy_s (getStats_s depth api) api destStat src dest opts))"

section \<open>The async dialect (copy.js)\<close>

text \<open>Every \<open>await\<close> is a sequencing point; a rejected promise is an error value.
  The two stats of \<open>getStats\<close> are started together and only read the filesystem;
  they are taken in the order source, destination.\<close>

definition getStats_a :: "'fs sys \<Rightarrow> string \<Rightarrow> string \<Rightarrow> opts \<Rightarrow> (stats \<times> stats option, 'fs) io" where
  "getStats_a api src dest opts =
     (let statFunc = (if dereference opts then io_stat api else io_lstat api)
      in bindIO (statFunc src) (\<lambda>srcStat.
           bindIO (catchIO (bindIO (statFunc dest) (\<lambda>destStat. returnIO (Some destStat)))
                     (\<lambda>err. if errCode err = ''ENOENT'' then returnIO None else throwIO err))
             (\<lambda>destStat. returnIO (srcStat, destStat))))"

definition checkPaths_a :: "'fs sys \<Rightarrow> string \<Rightarrow> string \<Rightarrow> opts \<Rightarrow> (stats \<times> stats option, 'fs) io" where
  "checkPaths_a api src dest opts =
     bindIO (getStats_a api src dest opts) (\<lambda>(srcStat, destStat).
       bindIO
         (case destStat of
            None \<Rightarrow> returnIO ()
          | Some dstat \<Rightarrow>
              if areIdentical srcStat dstat then
                throwIO (CopyError ERR_FS_COPY_TO_SUBDIRECTORY
                  \<lparr>e_code = ''EINVAL'', e_message = ''src and dest cannot be the same directory'',
                   e_path = dest, e_syscall = ''copy'', e_errno = EINVAL\<rparr>)
              else if isDirectory srcStat \<and> \<not> isDirectory dstat then
                throwIO (CopyError ERR_FS_COPY_DIR_TO_NON_DIR
                  \<lparr>e_code = ''EISDIR'',
                   e_message = ''cannot overwrite directory '' @ src @ '' with non-directory '' @ dest,
                   e_path = dest, e_syscall = ''copy'', e_errno = EISDIR\<rparr>)
              else if \<not> isDirectory srcStat \<and> isDirectory dstat then
                throwIO (CopyError ERR_FS_COPY_NON_DIR_TO_DIR
                  \<lparr>e_code = ''ENOTDIR'',
                   e_message = ''cannot overwrite non-directory '' @ src @ '' with directory '' @ dest,
                   e_path = dest, e_syscall = ''copy'', e_errno = ENOTDIR\<rparr>)
              else returnIO ())
         (\<lambda>_. if isDirectory srcStat \<and> isSrcSubdir (sys_cwd api) src dest then
                throwIO (CopyError ERR_FS_COPY_TO_SUBDIRECTORY
                  \<lparr>e_code = ''EINVAL'',
                   e_message = ''cannot copy '' @ src @ '' to a subdirectory of self '' @ dest,
                   e_path = dest, e_syscall = ''copy'', e_errno = EINVAL\<rparr>)
              else returnIO (srcStat, destStat)))"

definition pathExists_a :: "'fs sys \<Rightarrow> string \<Rightarrow> (bool, 'fs) io" where
  "pathExists_a api dest =
     catchIO (bindIO (io_stat api dest) (\<lambda>_. returnIO True))
       (\<lambda>err. if errCode err = ''ENOENT'' then returnIO False else throwIO err)"

definition checkParentDir_a :: "'fs copier \<Rightarrow> 'fs sys \<Rightarrow> 'fs copier" where
  "checkParentDir_a getStatsForCopy api destStat src dest opts =
     (let destParent = dirname dest
      in bindIO (pathExists_a api destParent) (\<lambda>dirExists.
           if dirExists then getStatsForCopy destStat src dest opts
           else bindIO (io_mkdir api destParent True) (\<lambda>_.
                  getStatsForCopy destStat src dest opts)))"

partial_function (option) checkParentPaths_a ::
  "'fs sys \<Rightarrow> string \<Rightarrow> stats \<Rightarrow> string \<Rightarrow> 'fs \<Rightarrow> (error + unit) option" where
  "checkParentPaths_a api src srcStat dest f =
     (let srcParent = resolve (sys_cwd api) [dirname src];
          destParent = resolve (sys_cwd api) [dirname dest]
      in if destParent = srcParent \<or> destParent = parseRoot destParent then Some (Inr ())
         else (case fs_stat api f destParent of
                 Inl err \<Rightarrow> if errCode err = ''ENOENT'' then Some (Inr ()) else Some (Inl err)
               | Inr destStat \<Rightarrow>
                   if areIdentical srcStat destStat then
                     Some (Inl (CopyError ERR_FS_COPY_TO_SUBDIRECTORY
                       \<lparr>e_code = ''EINVAL'',
                        e_message = ''cannot copy '' @ src @ '' to a subdirectory of self '' @ dest,
                        e_path = dest, e_syscall = ''copy'', e_errno = EINVAL\<rparr>))
                   else checkParentPaths_a api src srcStat destParent f))"

declare checkParentPaths_a.simps [code]

text \<open>\<open>handleFilter\<close> is only called when \<open>opts.filter\<close> is set; calling an unset
  filter is the language's \<open>TypeError\<close>.\<close>

definition handleFilter_a :: "'fs copier \<Rightarrow> 'fs copier" where
  "handleFilter_a onInclude destStat src dest opts =
     (case filterFn opts of
        None \<Rightarrow> throwIO (TypeError ''opts.filter is not a function'')
      | Some flt \<Rightarrow> if flt src dest then onInclude destStat src dest opts else returnIO ())"

definition startCopy_a :: "'fs copier \<Rightarrow> 'fs copier" where
  "startCopy_a getStatsForCopy destStat src dest opts =
     (if filterFn opts \<noteq> None then handleFilter_a getStatsForCopy destStat src dest opts
      else getStatsForCopy destStat src dest opts)"

definition setDestMode_a :: "'fs sys \<Rightarrow> string \<Rightarrow> int \<Rightarrow> (unit, 'fs) io" where
  "setDestMode_a api dest srcMode = io_chmod api dest srcMode"

definition makeFileWritable_a :: "'fs sys \<Rightarrow> string \<Rightarrow> int \<Rightarrow> (unit, 'fs) io" where
  "makeFileWritable_a api dest srcMode = setDestMode_a api dest (srcMode OR 128)"

definition utimesMillis_a :: "'fs sys \<Rightarrow> string \<Rightarrow> int \<Rightarrow> int \<Rightarrow> (unit, 'fs) io" where
  "utimesMillis_a api p atime mtime =
     bindIO (io_open api p ''r+'') (\<lambda>d.
       finallyIO (io_futimes api d atime mtime) (io_close api d))"

definition setDestTimestamps_a :: "'fs sys \<Rightarrow> string \<Rightarrow> string \<Rightarrow> (unit, 'fs) io" where
  "setDestTimestamps_a api src dest =
     bindIO (io_stat api src) (\<lambda>updatedSrcStat.
       utimesMillis_a api dest (st_atime updatedSrcStat) (st_mtime updatedSrcStat))"

definition setDestTimestampsAndMode_a :: "'fs sys \<Rightarrow> int \<Rightarrow> string \<Rightarrow> string \<Rightarrow> (unit, 'fs) io" where
  "setDestTimestampsAndMode_a api srcMode src dest =
     bindIO (setDestTimestamps_a api src dest) (\<lambda>_. setDestMode_a api dest srcMode)"

definition handleTimestampsAndMode_a :: "'fs sys \<Rightarrow> int \<Rightarrow> string \<Rightarrow> string \<Rightarrow> (unit, 'fs) io" where
  "handleTimestampsAndMode_a api srcMode src dest =
     (if fileIsNotWritable srcMode then
        bindIO (makeFileWritable_a api dest srcMode) (\<lambda>_.
          setDestTimestampsAndMode_a api srcMode src dest)
      else setDestTimestampsAndMode_a api srcMode src dest)"

text \<open>The source's \<open>_copyFile\<close>.\<close>

definition copyFile_a :: "'fs sys \<Rightarrow> stats \<Rightarrow> string \<Rightarrow> string \<Rightarrow> opts \<Rightarrow> (unit, 'fs) io" where
  "copyFile_a api srcStat src dest opts =
     bindIO (io_copyFile api src dest) (\<lambda>_.
       if preserveTimestamps opts then handleTimestampsAndMode_a api (st_mode srcStat) src dest
       else setDestMode_a api dest (st_mode srcStat))"

definition mayCopyFile_a :: "'fs sys \<Rightarrow> stats \<Rightarrow> string \<Rightarrow> string \<Rightarrow> opts \<Rightarrow> (unit, 'fs) io" where
  "mayCopyFile_a api srcStat src dest opts =
     (if force opts then
        bindIO (io_unlink api dest) (\<lambda>_. copyFile_a api srcStat src dest opts)
      else if errorOnExist opts then
        throwIO (CopyError ERR_FS_COPY_EEXIST
          \<lparr>e_code = ''EEXIST'', e_message = dest @ '' already exists'',
           e_path = dest, e_syscall = ''copy'', e_errno = EEXIST\<rparr>)
      else returnIO ())"

definition onFile_a ::
  "'fs sys \<Rightarrow> stats \<Rightarrow> stats option \<Rightarrow> string \<Rightarrow> string \<Rightarrow> opts \<Rightarrow> (unit, 'fs) io" where
  "onFile_a api srcStat destStat src dest opts =
     (if destStat = None then copyFile_a api srcStat src dest opts
      else mayCopyFile_a api srcStat src dest opts)"

definition copyLink_a :: "'fs sys \<Rightarrow> string \<Rightarrow> string \<Rightarrow> (unit, 'fs) io" where
  "copyLink_a api resolvedSrc dest =
     bindIO (io_unlink api dest) (\<lambda>_. io_symlink api resolvedSrc dest)"

definition onLink_a :: "'fs sys \<Rightarrow> stats option \<Rightarrow> string \<Rightarrow> string \<Rightarrow> (unit, 'fs) io" where
  "onLink_a api destStat src dest =
     bindIO (io_readlink api src) (\<lambda>resolvedSrc0.
       let resolvedSrc = (if \<not> isAbsolute resolvedSrc0
                          then resolve (sys_cwd api) [dirname src, resolvedSrc0]
                          else resolvedSrc0)
       in if destStat = None then io_symlink api resolvedSrc dest
          else bindIO (readlinkDest api dest) (\<lambda>rd.
            case rd of
              None \<Rightarrow> io_symlink api resolvedSrc dest
            | Some resolvedDest0 \<Rightarrow>
                (let resolvedDest =
                       (if \<not> isAbsolute resolvedDest0
                        then resolve (sys_cwd api) [dirname dest, resolvedDest0]
                        else resolvedDest0)
                 in if isSrcSubdir (sys_cwd api) resolvedSrc resolvedDest then
                      throwIO (CopyError ERR_FS_COPY_TO_SUBDIRECTORY
                        \<lparr>e_code = ''EINVAL'',
                         e_message = ''cannot copy '' @ resolvedSrc @
                           '' to a subdirectory of self '' @ resolvedDest,
                         e_path = dest, e_syscall = ''copy'', e_errno = EINVAL\<rparr>)
                    else
                      bindIO (io_stat api src) (\<lambda>srcStat.
                        if isDirectory srcStat \<and>
                           isSrcSubdir (sys_cwd api) resolvedDest resolvedSrc then
                          throwIO (CopyError ERR_FS_COPY_SYMLINK_TO_SUBDIRECTORY
                            \<lparr>e_code = ''EINVAL'',
                             e_message = ''cannot overwrite '' @ resolvedDest @ '' with '' @
                               resolvedSrc,
                             e_path = dest, e_syscall = ''copy'', e_errno = EINVAL\<rparr>)
                        else copyLink_a api resolvedSrc dest))))"

text \<open>The \<open>for\<close> loop of \<open>copyDir\<close>, from index \<open>i\<close> on.\<close>

function copyDirLoop_a ::
  "'fs copier \<Rightarrow> 'fs sys \<Rightarrow> string list \<Rightarrow> nat \<Rightarrow> string \<Rightarrow> string \<Rightarrow> opts \<Rightarrow> (unit, 'fs) io" where
  "copyDirLoop_a getStatsForCopy api dir i src dest opts =
     (if i < length dir then
        (let item = dir ! i;
             srcItem = join src item;
             destItem = join dest item
         in bindIO (checkPaths_a api srcItem destItem opts) (\<lambda>(srcStat, destStat).
              bindIO (startCopy_a getStatsForCopy destStat srcItem destItem opts) (\<lambda>_.
                copyDirLoop_a getStatsForCopy api dir (Suc i) src dest opts)))
      else returnIO ())"
  by pat_completeness auto
termination
  by (relation "measure (\<lambda>(g, api, dir, i, rest). length dir - i)") auto

declare copyDirLoop_a.simps [simp del]

definition copyDir_a :: "'fs copier \<Rightarrow> 'fs sys \<Rightarrow> string \<Rightarrow> string \<Rightarrow> opts \<Rightarrow> (unit, 'fs) io" where
  "copyDir_a getStatsForCopy api src dest opts =
     bindIO (io_readdir api src) (\<lambda>dir.
       copyDirLoop_a getStatsForCopy api dir 0 src dest opts)"

definition mkDirAndCopy_a ::
  "'fs copier \<Rightarrow> 'fs sys \<Rightarrow> int \<Rightarrow> string \<Rightarrow> string \<Rightarrow> opts \<Rightarrow> (unit, 'fs) io" where
  "mkDirAndCopy_a getStatsForCopy api srcMode src dest opts =
     bindIO (io_mkdir api dest False) (\<lambda>_.
       bindIO (copyDir_a getStatsForCopy api src dest opts) (\<lambda>_.
         setDestMode_a api dest srcMode))"

definition onDir_a ::
  "'fs copier \<Rightarrow> 'fs sys \<Rightarrow> stats \<Rightarrow> stats option \<Rightarrow> string \<Rightarrow> string \<Rightarrow> opts \<Rightarrow> (unit, 'fs) io"
  where
  "onDir_a getStatsForCopy api srcStat destStat src dest opts =
     (if destStat = None then mkDirAndCopy_a getStatsForCopy api (st_mode srcStat) src dest opts
      else copyDir_a getStatsForCopy api src dest opts)"

definition getStatsForCopyBody_a :: "'fs copier \<Rightarrow> 'fs sys \<Rightarrow> 'fs copier" where
  "getStatsForCopyBody_a self api destStat src dest opts =
     bindIO ((if dereference opts then io_stat api else io_lstat api) src) (\<lambda>srcStat.
       if isDirectory srcStat then onDir_a self api srcStat destStat src dest opts
       else if isFile srcStat \<or> isCharacterDevice srcStat \<or> isBlockDevice srcStat then
         onFile_a api srcStat destStat src dest opts
       else if isSymbolicLink srcStat then onLink_a api destStat src dest
       else if isSocket srcStat then
         throwIO (CopyError ERR_FS_COPY_SOCKET
           \<lparr>e_code = ''EINVAL'', e_message = ''cannot copy a socket file: '' @ dest,
            e_path = dest, e_syscall = ''copy'', e_errno = EINVAL\<rparr>)
       else if isFIFO srcStat then
         throwIO (CopyError ERR_FS_COPY_FIFO_PIPE
           \<lparr>e_code = ''EINVAL'', e_message = ''cannot copy a FIFO pipe: '' @ dest,
            e_path = dest, e_syscall = ''copy'', e_errno = EINVAL\<rparr>)
       else
         throwIO (CopyError ERR_FS_COPY_UNKNOWN
           \<lparr>e_code = ''EINVAL'', e_message = ''cannot copy a unknown file type: '' @ dest,
            e_path = dest, e_syscall = ''copy'', e_errno = EINVAL\<rparr>))"

primrec getStatsForCopy_a :: "nat \<Rightarrow> 'fs sys \<Rightarrow> 'fs copier" where
  "getStatsForCopy_a 0 api = (\<lambda>destStat src dest opts. throwIO Diverges)"
| "getStatsForCopy_a (Suc n) api = getStatsForCopyBody_a (getStatsForCopy_a n api) api"

definition copyFn_a :: "nat \<Rightarrow> 'fs sys \<Rightarrow> string \<Rightarrow> string \<Rightarrow> opts \<Rightarrow> (unit, 'fs) io" where
  "copyFn_a depth api src dest opts =
     bindIO (checkPaths_a api src dest opts) (\<lambda>(srcStat, destStat).
       bindIO (walkIO (checkParentPaths_a api src srcStat dest)) (\<lambda>_.
         if filterFn opts \<noteq> None then
           handleFilter_a (checkParentDir_a (getStatsForCopy_a depth api) api) destStat src dest opts
         else checkParentDir_a (getStatsForCopy_a depth api) api destStat src dest opts))"

section \<open>The callback dialect\<close>

text \<open>The continuation-passing functions are written in direct style: calling the
  callback with an error is returning that error, calling it with \<open>null\<close> is
  returning normally, and the work done inside a callback is the next step of the
  sequence. \<open>getStats\<close> is \<open>callbackify(getStatsAsync)\<close>.\<close>

definition getStats_cb :: "'fs sys \<Rightarrow> string \<Rightarrow> string \<Rightarrow> opts \<Rightarrow> (stats \<times> stats option, 'fs) io" where
  "getStats_cb api src dest opts =
     (let statFunc = (if dereference opts then io_stat api else io_lstat api)
      in bindIO (statFunc src) (\<lambda>srcStat.
           bindIO (catchIO (bindIO (statFunc dest) (\<lambda>destStat. returnIO (Some destStat)))
                     (\<lambda>err. if errCode err = ''ENOENT'' then returnIO None else throwIO err))
             (\<lambda>destStat. returnIO (srcStat, destStat))))"

definition checkPaths_cb :: "'fs sys \<Rightarrow> string \<Rightarrow> string \<Rightarrow> opts \<Rightarrow> (stats \<times> stats option, 'fs) io" where
  "checkPaths_cb api src dest opts =
     bindIO (getStats_cb api src dest opts) (\<lambda>(srcStat, destStat).
       bindIO
         (case destStat of
            None \<Rightarrow> returnIO ()
          | Some dstat \<Rightarrow>
              if areIdentical srcStat dstat then
                throwIO (CopyError ERR_FS_COPY_TO_SUBDIRECTORY
                  \<lparr>e_code = ''EINVAL'', e_message = ''src and dest cannot be the same directory'',
                   e_path = dest, e_syscall = ''copy'', e_errno = EINVAL\<rparr>)
              else if isDirectory srcStat \<and> \<not> isDirectory dstat then
                throwIO (CopyError ERR_FS_COPY_DIR_TO_NON_DIR
                  \<lparr>e_code = ''EISDIR'',
                   e_message = ''cannot overwrite directory '' @ src @ '' with non-directory '' @ dest,
                   e_path = dest, e_syscall = ''copy'', e_errno = EISDIR\<rparr>)
              else if \<not> isDirectory srcStat \<and> isDirectory dstat then
                throwIO (CopyError ERR_FS_COPY_NON_DIR_TO_DIR
                  \<lparr>e_code = ''ENOTDIR'',
                   e_message = ''cannot overwrite non-directory '' @ src @ '' with directory '' @ dest,
                   e_path = dest, e_syscall = ''copy'', e_errno = ENOTDIR\<rparr>)
              else returnIO ())
         (\<lambda>_. if isDirectory srcStat \<and> isSrcSubdir_cb (sys_cwd api) src dest then
                throwIO (CopyError ERR_FS_COPY_TO_SUBDIRECTORY
                  \<lparr>e_code = ''EINVAL'',
                   e_message = ''cannot copy '' @ src @ '' to a subdirectory of self '' @ dest,
                   e_path = dest, e_syscall = ''copy'', e_errno = EINVAL\<rparr>)
              else returnIO (srcStat, destStat)))"

definition pathExists_cb :: "'fs sys \<Rightarrow> string \<Rightarrow> (bool, 'fs) io" where
  "pathExists_cb api dest =
     catchIO (bindIO (io_stat api dest) (\<lambda>_. returnIO True))
       (\<lambda>err. if errCode err = ''ENOENT'' then returnIO False else throwIO err)"

definition checkParentDir_cb :: "'fs copier \<Rightarrow> 'fs sys \<Rightarrow> 'fs copier" where
  "checkParentDir_cb getStatsForCopy api destStat src dest opts =
     (let destParent = dirname dest
      in bindIO (pathExists_cb api destParent) (\<lambda>dirExists.
           if dirExists then getStatsForCopy destStat src dest opts
           else bindIO (io_mkdir api destParent True) (\<lambda>_.
                  getStatsForCopy destStat src dest opts)))"

partial_function (option) checkParentPaths_cb ::
  "'fs sys \<Rightarrow> string \<Rightarrow> stats \<Rightarrow> string \<Rightarrow> 'fs \<Rightarrow> (error + unit) option" where
  "checkParentPaths_cb api src srcStat dest f =
     (let srcParent = resolve (sys_cwd api) [dirname src];
          destParent = resolve (sys_cwd api) [dirname dest]
      in if destParent = srcParent \<or> destParent = parseRoot destParent then Some (Inr ())
         else (case fs_stat api f destParent of
                 Inl err \<Rightarrow> if errCode err = ''ENOENT'' then Some (Inr ()) else Some (Inl err)
               | Inr destStat \<Rightarrow>
                   if areIdentical srcStat destStat then
                     Some (Inl (CopyError ERR_FS_COPY_TO_SUBDIRECTORY
                       \<lparr>e_code = ''EINVAL'',
                        e_message = ''cannot copy '' @ src @ '' to a subdirectory of self '' @ dest,
                        e_path = dest, e_syscall = ''copy'', e_errno = EINVAL\<rparr>))
                   else checkParentPaths_cb api src srcStat destParent f))"

declare checkParentPaths_cb.simps [code]

definition handleFilter_cb :: "'fs copier \<Rightarrow> 'fs copier" where
  "handleFilter_cb onInclude destStat src dest opts =
     (case filterFn opts of
        None \<Rightarrow> throwIO (TypeError ''opts.filter is not a function'')
      | Some flt \<Rightarrow> if flt src dest then onInclude destStat src dest opts else returnIO ())"

definition startCopy_cb :: "'fs copier \<Rightarrow> 'fs copier" where
  "startCopy_cb getStatsForCopy destStat src dest opts =
     (if filterFn opts \<noteq> None then handleFilter_cb getStatsForCopy destStat src dest opts
      else getStatsForCopy destStat src dest opts)"

definition setDestMode_cb :: "'fs sys \<Rightarrow> string \<Rightarrow> int \<Rightarrow> (unit, 'fs) io" where
  "setDestMode_cb api dest srcMode = io_chmod api dest srcMode"

definition makeFileWritable_cb :: "'fs sys \<Rightarrow> string \<Rightarrow> int \<Rightarrow> (unit, 'fs) io" where
  "makeFileWritable_cb api dest srcMode = setDestMode_cb api dest (srcMode OR 128)"

text \<open>\<open>futimes\<close> and then \<open>close\<close> whatever \<open>futimes\<close> reported; the callback
  receives \<open>futimesErr || closeErr\<close>.\<close>

definition utimesMillis_cb :: "'fs sys \<Rightarrow> string \<Rightarrow> int \<Rightarrow> int \<Rightarrow> (unit, 'fs) io" where
  "utimesMillis_cb api p atime mtime =
     bindIO (io_open api p ''r+'') (\<lambda>d w.
       case io_futimes api d atime mtime w of
         (futimesRes, w1) \<Rightarrow>
           (case io_close api d w1 of
              (closeRes, w2) \<Rightarrow>
                ((case futimesRes of Inl futimesErr \<Rightarrow> Inl futimesErr | Inr _ \<Rightarrow> closeRes), w2)))"

definition setDestTimestamps_cb :: "'fs sys \<Rightarrow> string \<Rightarrow> string \<Rightarrow> (unit, 'fs) io" where
  "setDestTimestamps_cb api src dest =
     bindIO (io_stat api src) (\<lambda>updatedSrcStat.
       utimesMillis_cb api dest (st_atime updatedSrcStat) (st_mtime updatedSrcStat))"

definition setDestTimestampsAndMode_cb :: "'fs sys \<Rightarrow> int \<Rightarrow> string \<Rightarrow> string \<Rightarrow> (unit, 'fs) io" where
  "setDestTimestampsAndMode_cb api srcMode src dest =
     bindIO (setDestTimestamps_cb api src dest) (\<lambda>_. setDestMode_cb api dest srcMode)"

definition handleTimestampsAndMode_cb :: "'fs sys \<Rightarrow> int \<Rightarrow> string \<Rightarrow> string \<Rightarrow> (unit, 'fs) io" where
  "handleTimestampsAndMode_cb api srcMode src dest =
     (if fileIsNotWritable srcMode then
        bindIO (makeFileWritable_cb api dest srcMode) (\<lambda>_.
          setDestTimestampsAndMode_cb api srcMode src dest)
      else setDestTimestampsAndMode_cb api srcMode src dest)"

text \<open>The source's \<open>_copyFile\<close>.\<close>

definition copyFile_cb :: "'fs sys \<Rightarrow> stats \<Rightarrow> string \<Rightarrow> string \<Rightarrow> opts \<Rightarrow> (unit, 'fs) io" where
  "copyFile_cb api srcStat src dest opts =
     bindIO (io_copyFile api src dest) (\<lambda>_.
       if preserveTimestamps opts then handleTimestampsAndMode_cb api (st_mode srcStat) src dest
       else setDestMode_cb api dest (st_mode srcStat))"

definition mayCopyFile_cb :: "'fs sys \<Rightarrow> stats \<Rightarrow> string \<Rightarrow> string \<Rightarrow> opts \<Rightarrow> (unit, 'fs) io" where
  "mayCopyFile_cb api srcStat src dest opts =
     (if overwrite opts then
        bindIO (io_unlink api dest) (\<lambda>_. copyFile_cb api srcStat src dest opts)
      else if errorOnExist opts then
        throwIO (CopyError ERR_FS_COPY_EEXIST
          \<lparr>e_code = ''EEXIST'', e_message = dest @ '' already exists'',
           e_path = dest, e_syscall = ''copy'', e_errno = EEXIST\<rparr>)
      else returnIO ())"

definition onFile_cb ::
  "'fs sys \<Rightarrow> stats \<Rightarrow> stats option \<Rightarrow> string \<Rightarrow> string \<Rightarrow> opts \<Rightarrow> (unit, 'fs) io" where
  "onFile_cb api srcStat destStat src dest opts =
     (if destStat = None then copyFile_cb api srcStat src dest opts
      else mayCopyFile_cb api srcStat src dest opts)"

definition copyLink_cb :: "'fs sys \<Rightarrow> string \<Rightarrow> string \<Rightarrow> (unit, 'fs) io" where
  "copyLink_cb api resolvedSrc dest =
     bindIO (io_unlink api dest) (\<lambda>_. io_symlink api resolvedSrc dest)"

text \<open>\<open>onLink\<close>. The second guard calls \<open>stat.isSrcSubdir\<close>, and \<open>stat\<close> (the
  filesystem's stat function) has no such member: when \<open>destStat.isDirectory()\<close>
  holds, the call is a \<open>TypeError\<close>.\<close>

definition onLink_cb :: "'fs sys \<Rightarrow> stats option \<Rightarrow> string \<Rightarrow> string \<Rightarrow> opts \<Rightarrow> (unit, 'fs) io" where
  "onLink_cb api destStat src dest opts =
     bindIO (io_readlink api src) (\<lambda>resolvedSrc0.
       let resolvedSrc = (if dereference opts then resolve (sys_cwd api) [sys_cwd api, resolvedSrc0]
                          else resolvedSrc0)
       in case destStat of
            None \<Rightarrow> io_symlink api resolvedSrc dest
          | Some dstat \<Rightarrow>
              bindIO (readlinkDest api dest) (\<lambda>rd.
                case rd of
                  None \<Rightarrow> io_symlink api resolvedSrc dest
                | Some resolvedDest0 \<Rightarrow>
                    (let resolvedDest =
                           (if dereference opts
                            then resolve (sys_cwd api) [sys_cwd api, resolvedDest0]
                            else resolvedDest0)
                     in if isSrcSubdir_cb (sys_cwd api) resolvedSrc resolvedDest then
                          throwIO (CopyError ERR_FS_COPY_TO_SUBDIRECTORY
                            \<lparr>e_code = ''EINVAL'',
                             e_message = ''cannot copy '' @ resolvedSrc @
                               '' to a subdirectory of self '' @ resolvedDest,
                             e_path = dest, e_syscall = ''copy'', e_errno = EINVAL\<rparr>)
                        else if isDirectory dstat then
                          throwIO (TypeError ''stat.isSrcSubdir is not a function'')
                        else copyLink_cb api resolvedSrc dest)))"

text \<open>\<open>copyDirItem\<close>; \<open>next\<close> is the call \<open>copyDirItems(items, src, dest, opts, cb)\<close>
  that it makes, on the items that are left, once the item is copied.\<close>

definition copyDirItem_cb ::
  "'fs copier \<Rightarrow> 'fs sys \<Rightarrow> (unit, 'fs) io \<Rightarrow> string \<Rightarrow> string \<Rightarrow> string \<Rightarrow> opts \<Rightarrow> (unit, 'fs) io"
  where
  "copyDirItem_cb getStatsForCopy api next item src dest opts =
     (let srcItem = join src item;
          destItem = join dest item
      in bindIO (checkPaths_cb api srcItem destItem opts) (\<lambda>(srcStat, destStat).
           bindIO (startCopy_cb getStatsForCopy destStat srcItem destItem opts) (\<lambda>_. next)))"

text \<open>\<open>copyDirItems\<close>: \<open>items.pop()\<close> removes and returns the last element, and is
  \<open>undefined\<close> on an empty array; an \<open>undefined\<close> or empty item ends the loop.\<close>

function copyDirItems_cb ::
  "'fs copier \<Rightarrow> 'fs sys \<Rightarrow> string list \<Rightarrow> string \<Rightarrow> string \<Rightarrow> opts \<Rightarrow> (unit, 'fs) io" where
  "copyDirItems_cb getStatsForCopy api items src dest opts =
     (if items = [] then returnIO ()
      else (let item = last items;
                rest = butlast items
            in if item = [] then returnIO ()
               else copyDirItem_cb getStatsForCopy api
                      (copyDirItems_cb getStatsForCopy api rest src dest opts) item src dest opts))"
  by pat_completeness auto
termination
  by (relation "measure (\<lambda>(g, api, items, rest). length items)") auto

declare copyDirItems_cb.simps [simp del]

definition copyDir_cb :: "'fs copier \<Rightarrow> 'fs sys \<Rightarrow> string \<Rightarrow> string \<Rightarrow> opts \<Rightarrow> (unit, 'fs) io" where
  "copyDir_cb getStatsForCopy api src dest opts =
     bindIO (io_readdir api src) (\<lambda>items.
       copyDirItems_cb getStatsForCopy api items src dest opts)"

definition mkDirAndCopy_cb ::
  "'fs copier \<Rightarrow> 'fs sys \<Rightarrow> int \<Rightarrow> string \<Rightarrow> string \<Rightarrow> opts \<Rightarrow> (unit, 'fs) io" where
  "mkDirAndCopy_cb getStatsForCopy api srcMode src dest opts =
     bindIO (io_mkdir api dest False) (\<lambda>_.
       bindIO (copyDir_cb getStatsForCopy api src dest opts) (\<lambda>_.
         setDestMode_cb api dest srcMode))"

definition onDir_cb ::
  "'fs copier \<Rightarrow> 'fs sys \<Rightarrow> stats \<Rightarrow> stats option \<Rightarrow> string \<Rightarrow> string \<Rightarrow> opts \<Rightarrow> (unit, 'fs) io"
  where
  "onDir_cb getStatsForCopy api srcStat destStat src dest opts =
     (if destStat = None then mkDirAndCopy_cb getStatsForCopy api (st_mode srcStat) src dest opts
      else copyDir_cb getStatsForCopy api src dest opts)"

definition getStatsForCopyBody_cb :: "'fs copier \<Rightarrow> 'fs sys \<Rightarrow> 'fs copier" where
  "getStatsForCopyBody_cb self api destStat src dest opts =
     bindIO ((if dereference opts then io_stat api else io_lstat api) src) (\<lambda>srcStat.
       if isDirectory srcStat then onDir_cb self api srcStat destStat src dest opts
       else if isFile srcStat \<or> isCharacterDevice srcStat \<or> isBlockDevice srcStat then
         onFile_cb api srcStat destStat src dest opts
       else if isSymbolicLink srcStat then onLink_cb api destStat src dest opts
       else if isSocket srcStat then
         throwIO (CopyError ERR_FS_COPY_SOCKET
           \<lparr>e_code = ''EINVAL'', e_message = ''cannot copy a socket file: '' @ dest,
            e_path = dest, e_syscall = ''copy'', e_errno = EINVAL\<rparr>)
       else if isFIFO srcStat then
         throwIO (CopyError ERR_FS_COPY_FIFO_PIPE
           \<lparr>e_code = ''EINVAL'', e_message = ''cannot copy a FIFO pipe: '' @ dest,
            e_path = dest, e_syscall = ''copy'', e_errno = EINVAL\<rparr>)
       else
         throwIO (CopyError ERR_FS_COPY_UNKNOWN
           \<lparr>e_code = ''EINVAL'', e_message = ''cannot copy a unknown file type: '' @ dest,
            e_path = dest, e_syscall = ''copy'', e_errno = EINVAL\<rparr>))"

primrec getStatsForCopy_cb :: "nat \<Rightarrow> 'fs sys \<Rightarrow> 'fs copier" where
  "getStatsForCopy_cb 0 api = (\<lambda>destStat src dest opts. throwIO Diverges)"
| "getStatsForCopy_cb (Suc n) api = getStatsForCopyBody_cb (getStatsForCopy_cb n api) api"

definition copyFn_cb :: "nat \<Rightarrow> 'fs sys \<Rightarrow> string \<Rightarrow> string \<Rightarrow> opts \<Rightarrow> (unit, 'fs) io" where
  "copyFn_cb depth api src dest opts =
     bindIO (checkPaths_cb api src dest opts) (\<lambda>(srcStat, destStat).
       bindIO (walkIO (checkParentPaths_cb api src srcStat dest)) (\<lambda>_.
         if filterFn opts \<noteq> None then
           handleFilter_cb (checkParentDir_cb (getStatsForCopy_cb depth api) api) destStat src dest opts
         else checkParentDir_cb (getStatsForCopy_cb depth api) api destStat src dest opts))"

definition copyPromises_cb :: "nat \<Rightarrow> 'fs sys \<Rightarrow> string \<Rightarrow> string \<Rightarrow> opts \<Rightarrow> (unit, 'fs) io" where
  "copyPromises_cb depth api src dest options = copyFn_cb depth api src dest options"

section \<open>A small in-memory filesystem\<close>

text \<open>
  One concrete filesystem on which the engine can be run: a table from path strings
  to nodes, a table of open descriptors, a counter for fresh inode and descriptor
  numbers, and a clock for the times of new entries. A path names the entry stored
  under exactly that string. It is used to run the engine on concrete inputs; the
  theorems about the engine hold for every filesystem.
\<close>

record node =
  n_stat :: stats
  n_target :: string
  n_data :: string

record memfs =
  m_nodes :: "(string \<times> node) list"
  m_fds :: "(fd \<times> string) list"
  m_next :: nat
  m_clock :: int

fun putNode :: "string \<Rightarrow> node \<Rightarrow> (string \<times> node) list \<Rightarrow> (string \<times> node) list" where
  "putNode p n [] = [(p, n)]"
| "putNode p n ((k, v) # kvs) = (if k = p then (k, n) # kvs else (k, v) # putNode p n kvs)"

definition dropNode :: "string \<Rightarrow> (string \<times> node) list \<Rightarrow> (string \<times> node) list" where
  "dropNode p kvs = filter (\<lambda>kv. fst kv \<noteq> p) kvs"

text \<open>Following symbolic links, at most \<open>n\<close> of them; a relative target is taken from
  the directory of the link.\<close>

fun followLinks :: "nat \<Rightarrow> (string \<times> node) list \<Rightarrow> string \<Rightarrow> error + string \<times> node" where
  "followLinks n kvs p =
     (case map_of kvs p of
        None \<Rightarrow> Inl (SystemError ''ENOENT'')
      | Some nd \<Rightarrow>
          if st_kind (n_stat nd) = SymbolicLink then
            (case n of
               0 \<Rightarrow> Inl (SystemError ''ELOOP'')
             | Suc k \<Rightarrow>
                 followLinks k kvs
                   (if isAbsolute (n_target nd) then n_target nd else join (dirname p) (n_target nd)))
          else Inr (p, nd))"

definition mem_stat :: "memfs \<Rightarrow> string \<Rightarrow> error + stats" where
  "mem_stat f p =
     (case followLinks 8 (m_nodes f) p of Inl e \<Rightarrow> Inl e | Inr (q, nd) \<Rightarrow> Inr (n_stat nd))"

definition mem_lstat :: "memfs \<Rightarrow> string \<Rightarrow> error + stats" where
  "mem_lstat f p =
     (case map_of (m_nodes f) p of
        None \<Rightarrow> Inl (SystemError ''ENOENT'')
      | Some nd \<Rightarrow> Inr (n_stat nd))"

definition mem_readlink :: "memfs \<Rightarrow> string \<Rightarrow> error + string" where
  "mem_readlink f p =
     (case map_of (m_nodes f) p of
        None \<Rightarrow> Inl (SystemError ''ENOENT'')
      | Some nd \<Rightarrow>
          if st_kind (n_stat nd) = SymbolicLink then Inr (n_target nd)
          else Inl (SystemError ''EINVAL''))"

definition mem_readdir :: "memfs \<Rightarrow> string \<Rightarrow> error + string list" where
  "mem_readdir f p =
     (case followLinks 8 (m_nodes f) p of
        Inl e \<Rightarrow> Inl e
      | Inr (q, nd) \<Rightarrow>
          if st_kind (n_stat nd) \<noteq> Directory then Inl (SystemError ''ENOTDIR'')
          else Inr (map (\<lambda>kv. last (splitOn sep (fst kv)))
                     (filter (\<lambda>kv. fst kv \<noteq> q \<and> dirname (fst kv) = q) (m_nodes f))))"

definition mem_exists :: "memfs \<Rightarrow> string \<Rightarrow> bool" where
  "mem_exists f p = (case mem_stat f p of Inl e \<Rightarrow> False | Inr st \<Rightarrow> True)"

definition newNode :: "memfs \<Rightarrow> fkind \<Rightarrow> int \<Rightarrow> string \<Rightarrow> string \<Rightarrow> node" where
  "newNode f k md target data =
     \<lparr>n_stat = \<lparr>st_kind = k, st_mode = md, st_atime = m_clock f, st_mtime = m_clock f,
                st_dev = 1, st_ino = m_next f\<rparr>,
      n_target = target, n_data = data\<rparr>"

definition mem_mkdir1 :: "memfs \<Rightarrow> string \<Rightarrow> error + memfs" where
  "mem_mkdir1 f p =
     (if map_of (m_nodes f) p \<noteq> None then Inl (SystemError ''EEXIST'')
      else if \<not> mem_exists f (dirname p) then Inl (SystemError ''ENOENT'')
      else Inr (f\<lparr>m_nodes := putNode p (newNode f Directory 493 [] []) (m_nodes f),
                  m_next := Suc (m_next f)\<rparr>))"

text \<open>Recursive \<open>mkdir\<close>: the missing ancestors from the root down, then the
  directory itself; entries that exist are left alone.\<close>

fun mem_mkdirs :: "memfs \<Rightarrow> string list \<Rightarrow> error + memfs" where
  "mem_mkdirs f [] = Inr f"
| "mem_mkdirs f (p # ps) =
     (if mem_exists f p then mem_mkdirs f ps
      else (case mem_mkdir1 f p of Inl e \<Rightarrow> Inl e | Inr f' \<Rightarrow> mem_mkdirs f' ps))"

definition ancestorsAndSelf :: "string \<Rightarrow> string list" where
  "ancestorsAndSelf p =
     (let segs = filter (\<lambda>s. s \<noteq> []) (splitOn sep p)
      in map (\<lambda>k. sep # joinSep (take k segs)) [1..<Suc (length segs)])"

definition mem_mkdir :: "memfs \<Rightarrow> string \<Rightarrow> bool \<Rightarrow> error + memfs" where
  "mem_mkdir f p recursive =
     (if recursive then mem_mkdirs f (ancestorsAndSelf p) else mem_mkdir1 f p)"

definition mem_unlink :: "memfs \<Rightarrow> string \<Rightarrow> error + memfs" where
  "mem_unlink f p =
     (case map_of (m_nodes f) p of
        None \<Rightarrow> Inl (SystemError ''ENOENT'')
      | Some nd \<Rightarrow>
          if st_kind (n_stat nd) = Directory then Inl (SystemError ''EISDIR'')
          else Inr (f\<lparr>m_nodes := dropNode p (m_nodes f)\<rparr>))"

definition mem_symlink :: "memfs \<Rightarrow> string \<Rightarrow> string \<Rightarrow> error + memfs" where
  "mem_symlink f target p =
     (if map_of (m_nodes f) p \<noteq> None then Inl (SystemError ''EEXIST'')
      else if \<not> mem_exists f (dirname p) then Inl (SystemError ''ENOENT'')
      else Inr (f\<lparr>m_nodes := putNode p (newNode f SymbolicLink 511 target []) (m_nodes f),
                  m_next := Suc (m_next f)\<rparr>))"

definition mem_chmod :: "memfs \<Rightarrow> string \<Rightarrow> int \<Rightarrow> error + memfs" where
  "mem_chmod f p md =
     (case followLinks 8 (m_nodes f) p of
        Inl e \<Rightarrow> Inl e
      | Inr (q, nd) \<Rightarrow>
          Inr (f\<lparr>m_nodes := putNode q (nd\<lparr>n_stat := (n_stat nd)\<lparr>st_mode := md\<rparr>\<rparr>) (m_nodes f)\<rparr>))"

text \<open>\<open>copyFile\<close> reads the source (which moves its access time to the clock) and
  writes the destination: a new regular file with the mode of the source, or the
  data of an existing writable one.\<close>

definition mem_copyFile :: "memfs \<Rightarrow> string \<Rightarrow> string \<Rightarrow> error + memfs" where
  "mem_copyFile f src dest =
     (case followLinks 8 (m_nodes f) src of
        Inl e \<Rightarrow> Inl e
      | Inr (s, sn) \<Rightarrow>
          if st_kind (n_stat sn) = Directory then Inl (SystemError ''EISDIR'')
          else
            (let f1 = f\<lparr>m_nodes :=
                          putNode s (sn\<lparr>n_stat := (n_stat sn)\<lparr>st_atime := m_clock f\<rparr>\<rparr>)
                            (m_nodes f)\<rparr>
             in case followLinks 8 (m_nodes f1) dest of
                  Inr (d, dnd) \<Rightarrow>
                    if st_kind (n_stat dnd) = Directory then Inl (SystemError ''EISDIR'')
                    else if st_mode (n_stat dnd) AND 128 = 0 then Inl (SystemError ''EACCES'')
                    else Inr (f1\<lparr>m_nodes :=
                                   putNode d (dnd\<lparr>n_data := n_data sn,
                                                   n_stat := (n_stat dnd)\<lparr>st_mtime := m_clock f\<rparr>\<rparr>)
                                     (m_nodes f1)\<rparr>)
                | Inl e \<Rightarrow>
                    if map_of (m_nodes f1) dest \<noteq> None then Inl e
                    else if \<not> mem_exists f1 (dirname dest) then Inl (SystemError ''ENOENT'')
                    else Inr (f1\<lparr>m_nodes :=
                                   putNode dest
                                     (newNode f1 RegularFile (st_mode (n_stat sn)) [] (n_data sn))
                                     (m_nodes f1),
                                 m_next := Suc (m_next f1)\<rparr>)))"

text \<open>Opening for reading and writing needs the owner-write bit.\<close>

definition mem_open :: "memfs \<Rightarrow> string \<Rightarrow> string \<Rightarrow> error + fd \<times> memfs" where
  "mem_open f p flags =
     (case followLinks 8 (m_nodes f) p of
        Inl e \<Rightarrow> Inl e
      | Inr (q, nd) \<Rightarrow>
          if st_kind (n_stat nd) = Directory then Inl (SystemError ''EISDIR'')
          else if st_mode (n_stat nd) AND 128 = 0 then Inl (SystemError ''EACCES'')
          else Inr (m_next f, f\<lparr>m_fds := (m_next f, q) # m_fds f, m_next := Suc (m_next f)\<rparr>))"

definition mem_futimes :: "memfs \<Rightarrow> fd \<Rightarrow> int \<Rightarrow> int \<Rightarrow> error + memfs" where
  "mem_futimes f d a m =
     (case map_of (m_fds f) d of
        None \<Rightarrow> Inl (SystemError ''EBADF'')
      | Some q \<Rightarrow>
          (case map_of (m_nodes f) q of
             None \<Rightarrow> Inl (SystemError ''EBADF'')
           | Some nd \<Rightarrow>
               Inr (f\<lparr>m_nodes :=
                        putNode q (nd\<lparr>n_stat := (n_stat nd)\<lparr>st_atime := a, st_mtime := m\<rparr>\<rparr>)
                          (m_nodes f)\<rparr>)))"

definition mem_close :: "memfs \<Rightarrow> fd \<Rightarrow> error + memfs" where
  "mem_close f d =
     (case map_of (m_fds f) d of
        None \<Rightarrow> Inl (SystemError ''EBADF'')
      | Some q \<Rightarrow> Inr (f\<lparr>m_fds := filter (\<lambda>e. fst e \<noteq> d) (m_fds f)\<rparr>))"

definition memsys :: "string \<Rightarrow> memfs sys" where
  "memsys wd =
     \<lparr>sys_cwd = wd, fs_stat = mem_stat, fs_lstat = mem_lstat, fs_readlink = mem_readlink,
      fs_readdir = mem_readdir, fs_exists = mem_exists, fs_mkdir = mem_mkdir,
      fs_unlink = mem_unlink, fs_symlink = mem_symlink, fs_chmod = mem_chmod,
      fs_copyFile = mem_copyFile, fs_open = mem_open, fs_futimes = mem_futimes,
      fs_close = mem_close\<rparr>"

text \<open>Building a table: an entry of the given kind, mode and inode number, with the
  times 1000 (access) and 2000 (modification).\<close>

definition entry :: "string \<Rightarrow> fkind \<Rightarrow> int \<Rightarrow> nat \<Rightarrow> string \<Rightarrow> string \<times> node" where
  "entry p k md i target =
     (p, \<lparr>n_stat = \<lparr>st_kind = k, st_mode = md, st_atime = 1000, st_mtime = 2000,
                     st_dev = 1, st_ino = i\<rparr>,
          n_target = target, n_data = ''data''\<rparr>)"

definition mkfs :: "(string \<times> node) list \<Rightarrow> memfs world" where
  "mkfs kvs = (\<lparr>m_nodes = kvs, m_fds = [], m_next = 100, m_clock = 5000\<rparr>, [])"

definition noOpts :: opts where
  "noOpts = \<lparr>dereference = False, preserveTimestamps = False, force = False,
             overwrite = False, errorOnExist = False, filterFn = None\<rparr>"

text \<open>Sample filesystems. \<open>fsTwo\<close>: a directory \<open>/s\<close> with the files \<open>a\<close> (mode
  \<open>0o644\<close>) and \<open>b\<close> (mode \<open>0o444\<close>). \<open>fsLinks\<close>: the link \<open>/a/l\<close> to the file
  \<open>/t/sub\<close>, and the link \<open>/b/l\<close> to the directory \<open>/t\<close>.\<close>

definition fsTwo :: "memfs world" where
  "fsTwo = mkfs [entry ''/'' Directory 493 1 [], entry ''/s'' Directory 493 2 [],
     entry ''/s/a'' RegularFile 420 3 [], entry ''/s/b'' RegularFile 292 4 []]"

definition fsLinks :: "memfs world" where
  "fsLinks = mkfs [entry ''/'' Directory 493 1 [], entry ''/a'' Directory 493 2 [],
     entry ''/b'' Directory 493 3 [], entry ''/t'' Directory 493 4 [],
     entry ''/t/sub'' RegularFile 420 5 [],
     entry ''/a/l'' SymbolicLink 511 6 ''/t/sub'',
     entry ''/b/l'' SymbolicLink 511 7 ''/t'']"

text \<open>The same filesystem on a volume that refuses to set times: \<open>futimes\<close> fails with
  \<open>EPERM\<close>.\<close>

definition memsysNoUtimes :: "string \<Rightarrow> memfs sys" where
  "memsysNoUtimes wd = (memsys wd)\<lparr>fs_futimes := (\<lambda>f d a m. Inl (SystemError ''EPERM''))\<rparr>"

definition timesOpts :: opts where
  "timesOpts = noOpts\<lparr>preserveTimestamps := True\<rparr>"

text \<open>\<open>fsRel\<close>: the link \<open>/a/l\<close> with the relative target \<open>sub\<close>, and the link \<open>/a/m\<close>
  with the absolute target \<open>/t/\<close>. \<open>fsDots\<close>: \<open>/q/f\<close> is a directory, \<open>/q/l\<close> is a link
  to the directory \<open>/y/z\<close>, and \<open>/y/f\<close> is a regular file, so that the path
  \<open>/q/l/../f\<close> names the regular file \<open>/y/f\<close>, and \<open>/q/f/n/..\<close> names nothing.\<close>

definition fsRel :: "memfs world" where
  "fsRel = mkfs [entry ''/'' Directory 493 1 [], entry ''/a'' Directory 493 2 [],
     entry ''/b'' Directory 493 3 [], entry ''/t'' Directory 493 4 [],
     entry ''/a/sub'' RegularFile 420 5 [],
     entry ''/a/l'' SymbolicLink 511 6 ''sub'',
     entry ''/a/m'' SymbolicLink 511 7 ''/t/'']"

definition fsDots :: "memfs world" where
  "fsDots = mkfs [entry ''/'' Directory 493 1 [], entry ''/q'' Directory 493 2 [],
     entry ''/q/f'' Directory 493 3 [], entry ''/y'' Directory 493 4 [],
     entry ''/y/z'' Directory 493 5 [], entry ''/y/f'' RegularFile 420 6 [],
     entry ''/q/l'' SymbolicLink 511 7 ''/y/z'',
     entry ''/q/l/../f'' RegularFile 420 6 []]"



text \<open>\<open>fsAlias\<close>: the directory \<open>/src\<close>, and under \<open>/dst\<close> the directory \<open>k\<close> and the
  link \<open>b\<close> to \<open>/src\<close>. \<open>statSrc\<close> is the stat of \<open>/src\<close>.\<close>

definition fsAlias :: "memfs world" where
  "fsAlias = mkfs [entry ''/'' Directory 493 1 [], entry ''/src'' Directory 493 2 [],
     entry ''/dst'' Directory 493 3 [], entry ''/dst/k'' Directory 493 4 [],
     entry ''/dst/b'' SymbolicLink 511 5 ''/src'']"

definition statSrc :: stats where
  "statSrc = \<lparr>st_kind = Directory, st_mode = 493, st_atime = 1000, st_mtime = 2000,
              st_dev = 1, st_ino = 2\<rparr>"

section \<open>The specification's wording\<close>

text \<open>The classification of an outcome: the error class and errno of one of the
  engine's own errors, or the value returned; \<open>None\<close> for any other error.\<close>

fun classOf :: "error + 'a \<Rightarrow> ((copy_code \<times> errno) + 'a) option" where
  "classOf (Inl (CopyError c i)) = Some (Inl (c, e_errno i))"
| "classOf (Inl (SystemError c)) = None"
| "classOf (Inl (TypeError m)) = None"
| "classOf (Inl Diverges) = None"
| "classOf (Inr a) = Some (Inr a)"

text \<open>The priority order of \<open>checkPaths\<close> as the specification words it, on the two
  stats (the destination's is \<open>None\<close> when the destination does not exist).\<close>

definition checkPathsSpec ::
  "string \<Rightarrow> stats \<Rightarrow> stats option \<Rightarrow> string \<Rightarrow> string \<Rightarrow> (copy_code \<times> errno) + stats \<times> stats option"
  where
  "checkPathsSpec wd srcStat destStat src dest =
     (if destStat \<noteq> None \<and> areIdentical srcStat (the destStat) then
        Inl (ERR_FS_COPY_TO_SUBDIRECTORY, EINVAL)
      else if isDirectory srcStat \<and> destStat \<noteq> None \<and> \<not> isDirectory (the destStat) then
        Inl (ERR_FS_COPY_DIR_TO_NON_DIR, EISDIR)
      else if \<not> isDirectory srcStat \<and> destStat \<noteq> None \<and> isDirectory (the destStat) then
        Inl (ERR_FS_COPY_NON_DIR_TO_DIR, ENOTDIR)
      else if isDirectory srcStat \<and> isSrcSubdir wd src dest then
        Inl (ERR_FS_COPY_TO_SUBDIRECTORY, EINVAL)
      else Inr (srcStat, destStat))"

text \<open>A computation only ever adds calls to the end of the log.\<close>

definition logGrows :: "('a, 'fs) io \<Rightarrow> bool" where
  "logGrows m = (\<forall>w. \<exists>ev. snd (snd (m w)) = snd w @ ev)"

text \<open>The overwrite decision for an existing destination as the specification words
  it. \<open>run\<close> is the file copier on a destination that exists, \<open>copy\<close> the byte copy
  with its timestamp and mode steps. With the flag set the destination is unlinked
  and then byte-copied (an error of the unlink ends the operation); otherwise with
  \<open>errorOnExist\<close> the error \<open>ERR_FS_COPY_EEXIST\<close> with errno \<open>EEXIST\<close> is raised and
  nothing is changed; otherwise the operation returns, with no call issued.\<close>

definition overwritePolicy ::
  "bool \<Rightarrow> bool \<Rightarrow> 'fs sys \<Rightarrow> string \<Rightarrow> string \<Rightarrow> (unit, 'fs) io \<Rightarrow> (unit, 'fs) io \<Rightarrow> 'fs world \<Rightarrow> bool"
  where
  "overwritePolicy flag errOnExist api src dest run copy w =
     (if flag then
        (case fs_unlink api (fst w) dest of
           Inl e \<Rightarrow> run w = (Inl e, (fst w, snd w @ [Unlink dest]))
         | Inr f1 \<Rightarrow>
             run w = copy (f1, snd w @ [Unlink dest]) \<and>
             (\<exists>rest. snd (snd (run w)) = snd w @ Unlink dest # CopyFile src dest # rest))
      else if errOnExist then
        classOf (fst (run w)) = Some (Inl (ERR_FS_COPY_EEXIST, EEXIST)) \<and> snd (run w) = w
      else run w = (Inr (), w))"

text \<open>The filesystem calls of a timestamp-preserving copy of a file without the
  owner-write bit, one after the other, each on the state the one before left:
  the byte copy, the chmod that adds the write bit, the fresh stat of the source,
  open, futimes with the fresh times, close, and the chmod to the source mode. The
  result is the final state, the descriptor and the fresh stat when all of them
  succeed.\<close>

definition timestampCalls ::
  "'fs sys \<Rightarrow> int \<Rightarrow> string \<Rightarrow> string \<Rightarrow> 'fs \<Rightarrow> ('fs \<times> fd \<times> stats) option" where
  "timestampCalls api srcMode src dest f0 =
     (case fs_copyFile api f0 src dest of
        Inl e \<Rightarrow> None
      | Inr f1 \<Rightarrow>
     (case fs_chmod api f1 dest (srcMode OR 128) of
        Inl e \<Rightarrow> None
      | Inr f2 \<Rightarrow>
     (case fs_stat api f2 src of
        Inl e \<Rightarrow> None
      | Inr updatedSrcStat \<Rightarrow>
     (case fs_open api f2 dest ''r+'' of
        Inl e \<Rightarrow> None
      | Inr (d, f3) \<Rightarrow>
     (case fs_futimes api f3 d (st_atime updatedSrcStat) (st_mtime updatedSrcStat) of
        Inl e \<Rightarrow> None
      | Inr f4 \<Rightarrow>
     (case fs_close api f4 d of
        Inl e \<Rightarrow> None
      | Inr f5 \<Rightarrow>
     (case fs_chmod api f5 dest srcMode of
        Inl e \<Rightarrow> None
      | Inr f6 \<Rightarrow> Some (f6, d, updatedSrcStat))))))))"

text \<open>The stat of the file \<open>/s/b\<close> of \<open>fsTwo\<close>, mode \<open>0o444\<close>.\<close>

definition statB :: stats where
  "statB = \<lparr>st_kind = RegularFile, st_mode = 292, st_atime = 1000, st_mtime = 2000,
            st_dev = 1, st_ino = 4\<rparr>"

text \<open>Running a list of computations one after the other, stopping at the first that
  fails; and the calls that each of them added to the log in such a run (the list
  ends with the one that failed).\<close>

fun runAll :: "(unit, 'fs) io list \<Rightarrow> (unit, 'fs) io" where
  "runAll [] = returnIO ()"
| "runAll (m # ms) = bindIO m (\<lambda>_. runAll ms)"

fun segs :: "(unit, 'fs) io list \<Rightarrow> 'fs world \<Rightarrow> syscall list list" where
  "segs [] w = []"
| "segs (m # ms) w =
     (case m w of
        (Inl e, w1) \<Rightarrow> [drop (length (snd w)) (snd w1)]
      | (Inr u, w1) \<Rightarrow> drop (length (snd w)) (snd w1) # segs ms w1)"

text \<open>The copy of one child of a directory in the async dialect: the body of the loop
  of \<open>copyDir\<close>.\<close>

definition copyDirChild_a ::
  "'fs copier \<Rightarrow> 'fs sys \<Rightarrow> string \<Rightarrow> string \<Rightarrow> string \<Rightarrow> opts \<Rightarrow> (unit, 'fs) io" where
  "copyDirChild_a getStatsForCopy api item src dest opts =
     bindIO (checkPaths_a api (join src item) (join dest item) opts) (\<lambda>(srcStat, destStat).
       startCopy_a getStatsForCopy destStat (join src item) (join dest item) opts)"

text \<open>The copy of one child in the callback dialect: \<open>copyDirItem\<close> with nothing left
  to do afterwards.\<close>

definition copyDirChild_cb ::
  "'fs copier \<Rightarrow> 'fs sys \<Rightarrow> string \<Rightarrow> string \<Rightarrow> string \<Rightarrow> opts \<Rightarrow> (unit, 'fs) io" where
  "copyDirChild_cb getStatsForCopy api item src dest opts =
     copyDirItem_cb getStatsForCopy api (returnIO ()) item src dest opts"

text \<open>A canonical component list: no component is empty, contains the separator, or
  is \<open>.\<close> or \<open>..\<close>.\<close>

definition canon :: "string list \<Rightarrow> bool" where
  "canon cs = (\<forall>c \<in> set cs. c \<noteq> [] \<and> sep \<notin> set c \<and> c \<noteq> ''.'' \<and> c \<noteq> ''..'')"

text \<open>One level of the ancestor walk as the specification words it. The walk stops
  without error when the current ancestor \<open>resolve(dirname(dest))\<close> equals
  \<open>resolve(dirname(src))\<close>, when it equals the root of its own decomposition, or when
  statting it fails with \<open>ENOENT\<close>; any other stat error propagates; an ancestor
  identical to \<open>srcStat\<close> raises \<open>ERR_FS_COPY_TO_SUBDIRECTORY\<close>; otherwise the walk goes
  on from the ancestor (\<open>Inr\<close>).\<close>

definition walkStep ::
  "'fs sys \<Rightarrow> string \<Rightarrow> stats \<Rightarrow> string \<Rightarrow> 'fs \<Rightarrow> (error + unit) + string" where
  "walkStep api src srcStat dest f =
     (let srcParent = resolve (sys_cwd api) [dirname src];
          destParent = resolve (sys_cwd api) [dirname dest]
      in if destParent = srcParent then Inl (Inr ())
         else if destParent = parseRoot destParent then Inl (Inr ())
         else (case fs_stat api f destParent of
                 Inl err \<Rightarrow> if errCode err = ''ENOENT'' then Inl (Inr ()) else Inl (Inl err)
               | Inr destStat \<Rightarrow>
                   if areIdentical srcStat destStat then
                     Inl (Inl (CopyError ERR_FS_COPY_TO_SUBDIRECTORY
                       \<lparr>e_code = ''EINVAL'',
                        e_message = ''cannot copy '' @ src @ '' to a subdirectory of self '' @ dest,
                        e_path = dest, e_syscall = ''copy'', e_errno = EINVAL\<rparr>))
                   else Inr destParent))"

section \<open>Basic facts\<close>

lemmas io_defs = returnIO_def throwIO_def bindIO_def catchIO_def finallyIO_def readIO_def
  callIO_def

lemmas prim_defs = io_stat_def io_lstat_def io_readlink_def io_readdir_def io_exists_def
  io_mkdir_def io_unlink_def io_symlink_def io_chmod_def io_copyFile_def io_open_def
  io_futimes_def io_close_def

text \<open>The log only grows.\<close>

named_theorems grows

lemma logGrowsI: "(\<And>w. \<exists>ev. snd (snd (m w)) = snd w @ ev) \<Longrightarrow> logGrows m"
  unfolding logGrows_def by blast

lemma logGrowsD: "logGrows m \<Longrightarrow> \<exists>ev. snd (snd (m w)) = snd w @ ev"
  unfolding logGrows_def by blast

lemma grows_return [grows]: "logGrows (returnIO a)"
  by (simp add: logGrows_def returnIO_def)

lemma grows_throw [grows]: "logGrows (throwIO e)"
  by (simp add: logGrows_def throwIO_def)

lemma grows_read [grows]: "logGrows (readIO g)"
  by (simp add: logGrows_def readIO_def)

lemma grows_call [grows]: "logGrows (callIO c g)"
  by (auto simp: logGrows_def callIO_def split: sum.splits)

lemma grows_open [grows]: "logGrows (io_open api p flags)"
  by (auto simp: logGrows_def io_open_def split: sum.splits)

lemma grows_bind [grows]:
  assumes "logGrows m" and "\<And>a. logGrows (k a)"
  shows "logGrows (bindIO m k)"
proof (rule logGrowsI)
  fix w
  obtain r w1 where m: "m w = (r, w1)" by (cases "m w")
  from logGrowsD[OF assms(1), of w] m obtain ev1 where e1: "snd w1 = snd w @ ev1" by auto
  show "\<exists>ev. snd (snd (bindIO m k w)) = snd w @ ev"
  proof (cases r)
    case (Inl e)
    then show ?thesis using m e1 by (simp add: bindIO_def)
  next
    case (Inr a)
    from logGrowsD[OF assms(2), of a w1] obtain ev2 where "snd (snd (k a w1)) = snd w1 @ ev2" by auto
    then show ?thesis using m e1 Inr by (simp add: bindIO_def)
  qed
qed

lemma grows_catch [grows]:
  assumes "logGrows m" and "\<And>e. logGrows (h e)"
  shows "logGrows (catchIO m h)"
proof (rule logGrowsI)
  fix w
  obtain r w1 where m: "m w = (r, w1)" by (cases "m w")
  from logGrowsD[OF assms(1), of w] m obtain ev1 where e1: "snd w1 = snd w @ ev1" by auto
  show "\<exists>ev. snd (snd (catchIO m h w)) = snd w @ ev"
  proof (cases r)
    case (Inr a)
    then show ?thesis using m e1 by (simp add: catchIO_def)
  next
    case (Inl e)
    from logGrowsD[OF assms(2), of e w1] obtain ev2 where "snd (snd (h e w1)) = snd w1 @ ev2" by auto
    then show ?thesis using m e1 Inl by (simp add: catchIO_def)
  qed
qed

lemma grows_finally [grows]:
  assumes "logGrows m" and "logGrows fin"
  shows "logGrows (finallyIO m fin)"
proof (rule logGrowsI)
  fix w
  obtain r w1 where m: "m w = (r, w1)" by (cases "m w")
  from logGrowsD[OF assms(1), of w] m obtain ev1 where e1: "snd w1 = snd w @ ev1" by auto
  obtain r2 w2 where f: "fin w1 = (r2, w2)" by (cases "fin w1")
  from logGrowsD[OF assms(2), of w1] f obtain ev2 where e2: "snd w2 = snd w1 @ ev2" by auto
  show "\<exists>ev. snd (snd (finallyIO m fin w)) = snd w @ ev"
    using m f e1 e2 by (cases r2) (simp_all add: finallyIO_def)
qed

lemma grows_if [grows]: "logGrows a \<Longrightarrow> logGrows b \<Longrightarrow> logGrows (if c then a else b)"
  by simp

lemma grows_prims [grows]:
  "logGrows (io_stat api p)" "logGrows (io_lstat api p)" "logGrows (io_readlink api p)"
  "logGrows (io_readdir api p)" "logGrows (io_exists api p)" "logGrows (io_mkdir api p r)"
  "logGrows (io_unlink api p)" "logGrows (io_symlink api t p)" "logGrows (io_chmod api p md)"
  "logGrows (io_copyFile api s d)" "logGrows (io_futimes api n a m)" "logGrows (io_close api n)"
  by (simp_all add: prim_defs grows)


lemma grows_case_option [grows]:
  "logGrows a \<Longrightarrow> (\<And>y. logGrows (b y)) \<Longrightarrow> logGrows (case x of None \<Rightarrow> a | Some y \<Rightarrow> b y)"
  by (cases x) simp_all

lemma grows_case_prod [grows]:
  "(\<And>a b. logGrows (f a b)) \<Longrightarrow> logGrows (case p of (a, b) \<Rightarrow> f a b)"
  by (cases p) simp

lemma grows_walk [grows]: "logGrows (walkIO g)"
  by (auto simp: logGrows_def walkIO_def split: option.splits)

lemma grows_file_s [grows]:
  "logGrows (setDestMode_s api dest md)"
  "logGrows (makeFileWritable_s api dest md)"
  "logGrows (utimesMillisSync api p a m)"
  "logGrows (setDestTimestamps_s api src dest)"
  "logGrows (handleTimestamps_s api md src dest)"
  "logGrows (copyFile_s api srcStat src dest opts)"
  "logGrows (mayCopyFile_s api srcStat src dest opts)"
  "logGrows (onFile_s api srcStat destStat src dest opts)"
  unfolding setDestMode_s_def makeFileWritable_s_def utimesMillisSync_def
    setDestTimestamps_s_def handleTimestamps_s_def copyFile_s_def mayCopyFile_s_def onFile_s_def
  by (intro grows)+

lemma grows_file_a [grows]:
  "logGrows (setDestMode_a api dest md)"
  "logGrows (makeFileWritable_a api dest md)"
  "logGrows (utimesMillis_a api p a m)"
  "logGrows (setDestTimestamps_a api src dest)"
  "logGrows (setDestTimestampsAndMode_a api md src dest)"
  "logGrows (handleTimestampsAndMode_a api md src dest)"
  "logGrows (copyFile_a api srcStat src dest opts)"
  "logGrows (mayCopyFile_a api srcStat src dest opts)"
  "logGrows (onFile_a api srcStat destStat src dest opts)"
  unfolding setDestMode_a_def makeFileWritable_a_def utimesMillis_a_def
    setDestTimestamps_a_def setDestTimestampsAndMode_a_def handleTimestampsAndMode_a_def
    copyFile_a_def mayCopyFile_a_def onFile_a_def
  by (intro grows)+

lemma grows_utimes_cb [grows]: "logGrows (utimesMillis_cb api p a m)"
proof -
  have "logGrows (\<lambda>w. case io_futimes api d a m w of
         (futimesRes, w1) \<Rightarrow>
           (case io_close api d w1 of
              (closeRes, w2) \<Rightarrow>
                ((case futimesRes of Inl futimesErr \<Rightarrow> Inl futimesErr | Inr _ \<Rightarrow> closeRes), w2)))" for d
    by (auto simp: logGrows_def io_futimes_def io_close_def callIO_def split: sum.splits prod.splits)
  then show ?thesis unfolding utimesMillis_cb_def by (intro grows)
qed

lemma grows_file_cb [grows]:
  "logGrows (setDestMode_cb api dest md)"
  "logGrows (makeFileWritable_cb api dest md)"
  "logGrows (setDestTimestamps_cb api src dest)"
  "logGrows (setDestTimestampsAndMode_cb api md src dest)"
  "logGrows (handleTimestampsAndMode_cb api md src dest)"
  "logGrows (copyFile_cb api srcStat src dest opts)"
  "logGrows (mayCopyFile_cb api srcStat src dest opts)"
  "logGrows (onFile_cb api srcStat destStat src dest opts)"
  unfolding setDestMode_cb_def makeFileWritable_cb_def
    setDestTimestamps_cb_def setDestTimestampsAndMode_cb_def handleTimestampsAndMode_cb_def
    copyFile_cb_def mayCopyFile_cb_def onFile_cb_def
  by (intro grows)+

lemma bind_call_starts:
  assumes "\<And>a. logGrows (k a)"
  shows "\<exists>rest. snd (snd (bindIO (callIO c g) k w)) = snd w @ c # rest"
proof (cases "g (fst w)")
  case (Inl e)
  then show ?thesis by (simp add: bindIO_def callIO_def)
next
  case (Inr f)
  from logGrowsD[OF assms, of "()" "(f, snd w @ [c])"]
  obtain ev where "snd (snd (k () (f, snd w @ [c]))) = (snd w @ [c]) @ ev" by auto
  then show ?thesis using Inr by (simp add: bindIO_def callIO_def)
qed

lemma copyFile_starts:
  "\<exists>rest. snd (snd (copyFile_s api srcStat src dest opts w)) = snd w @ CopyFile src dest # rest"
  "\<exists>rest. snd (snd (copyFile_a api srcStat src dest opts w)) = snd w @ CopyFile src dest # rest"
  "\<exists>rest. snd (snd (copyFile_cb api srcStat src dest opts w)) = snd w @ CopyFile src dest # rest"
  unfolding copyFile_s_def copyFile_a_def copyFile_cb_def io_copyFile_def
  by (rule bind_call_starts, intro grows)+

lemma every_prefix_drop:
  "list_all (\<lambda>(i, cur). jsIndex ys i = Some cur) (enumerate n xs) = prefix xs (drop n ys)"
proof (induction xs arbitrary: n)
  case Nil
  show ?case by simp
next
  case (Cons x xs)
  show ?case
  proof (cases "n < length ys")
    case True
    then have d: "drop n ys = ys ! n # drop (Suc n) ys"
      by (simp add: Cons_nth_drop_Suc)
    show ?thesis
      using True Cons.IH[of "Suc n"] by (auto simp: jsIndex_def d)
  next
    case False
    then show ?thesis by (simp add: jsIndex_def)
  qed
qed

lemma reduce_is_every:
  "foldl (\<lambda>acc ic. acc \<and> Q ic) b ps = (b \<and> list_all Q ps)"
  by (induction ps arbitrary: b) auto

lemma isSrcSubdir_prefix:
  "isSrcSubdir wd src dest = prefix (normalizePathToArray wd src) (normalizePathToArray wd dest)"
  using every_prefix_drop[of "normalizePathToArray wd dest" 0 "normalizePathToArray wd src"]
  by (simp add: isSrcSubdir_def Let_def)

lemma isSrcSubdir_cb_eq: "isSrcSubdir_cb wd src dest = isSrcSubdir wd src dest"
  by (simp add: isSrcSubdir_cb_def isSrcSubdir_def normalizePathToArray_def Let_def
      reduce_is_every)

section \<open>The subdirectory predicate\<close>

text \<open>
  C9. In both versions of the source, \<open>isSrcSubdir(src, dest)\<close> is true exactly when
  the component array of the resolved \<open>src\<close> (the resolved path split on the
  separator, empty components removed) is a prefix of the component array of the
  resolved \<open>dest\<close>. The predicate is a function of the two strings and the working
  directory alone: it takes no filesystem state.
\<close>

theorem isSrcSubdir_iff_prefix:
  "normalizePathToArray wd p = filter (\<lambda>s. s \<noteq> []) (splitOn sep (resolve wd [p])) \<and>
   isSrcSubdir wd src dest =
     prefix (normalizePathToArray wd src) (normalizePathToArray wd dest) \<and>
   isSrcSubdir_cb wd src dest =
     prefix (normalizePathToArray wd src) (normalizePathToArray wd dest)"
  by (simp add: isSrcSubdir_cb_eq isSrcSubdir_prefix normalizePathToArray_def)

section \<open>The pre-flight checks on a pair\<close>

lemma getStats_a_eq: "getStats_a api src dest opts = getStatsSync api src dest opts"
  by (rule ext)
    (auto simp: getStats_a_def getStatsSync_def io_defs prim_defs Let_def
      split: sum.splits prod.splits)

lemma getStats_cb_eq: "getStats_cb api src dest opts = getStatsSync api src dest opts"
  by (rule ext)
    (auto simp: getStats_cb_def getStatsSync_def io_defs prim_defs Let_def
      split: sum.splits prod.splits)

lemma checkPaths_a_eq: "checkPaths_a api src dest opts = checkPathsSync api src dest opts"
  by (simp add: checkPaths_a_def checkPathsSync_def getStats_a_eq)

lemma checkPaths_cb_eq: "checkPaths_cb api src dest opts = checkPathsSync api src dest opts"
  by (simp add: checkPaths_cb_def checkPathsSync_def getStats_cb_eq isSrcSubdir_cb_eq)

lemma getStatsSync_world:
  "getStatsSync api src dest opts w = (r, w') \<Longrightarrow> w' = w"
  by (auto simp: getStatsSync_def io_defs prim_defs Let_def split: sum.splits if_splits)

lemma checkPathsSync_class:
  assumes "getStatsSync api src dest opts w = (Inr (srcStat, destStat), w')"
  shows "classOf (fst (checkPathsSync api src dest opts w)) =
           Some (checkPathsSpec (sys_cwd api) srcStat destStat src dest)"
    and "snd (checkPathsSync api src dest opts w) = w"
  using assms getStatsSync_world[OF assms]
  by (auto simp: checkPathsSync_def checkPathsSpec_def io_defs split: option.splits)

text \<open>
  C2. When the two stats have been obtained, \<open>checkPaths\<close> (in each dialect) raises,
  in this priority order: \<open>ERR_FS_COPY_TO_SUBDIRECTORY\<close> with errno \<open>EINVAL\<close> when the
  destination exists and is identical to the source; else \<open>ERR_FS_COPY_DIR_TO_NON_DIR\<close>
  with \<open>EISDIR\<close> when the source is a directory and the destination exists as a
  non-directory; else \<open>ERR_FS_COPY_NON_DIR_TO_DIR\<close> with \<open>ENOTDIR\<close> when the source is
  not a directory and the destination exists as a directory; else
  \<open>ERR_FS_COPY_TO_SUBDIRECTORY\<close> with \<open>EINVAL\<close> when the source is a directory and
  \<open>isSrcSubdir(src, dest)\<close>; otherwise it returns the pair of stats. It changes
  nothing.
\<close>

theorem checkPaths_priority:
  "(getStatsSync api src dest opts w = (Inr (srcStat, destStat), w') \<longrightarrow>
      classOf (fst (checkPathsSync api src dest opts w)) =
        Some (checkPathsSpec (sys_cwd api) srcStat destStat src dest) \<and>
      snd (checkPathsSync api src dest opts w) = w) \<and>
   (getStats_a api src dest opts w = (Inr (srcStat, destStat), w') \<longrightarrow>
      classOf (fst (checkPaths_a api src dest opts w)) =
        Some (checkPathsSpec (sys_cwd api) srcStat destStat src dest) \<and>
      snd (checkPaths_a api src dest opts w) = w) \<and>
   (getStats_cb api src dest opts w = (Inr (srcStat, destStat), w') \<longrightarrow>
      classOf (fst (checkPaths_cb api src dest opts w)) =
        Some (checkPathsSpec (sys_cwd api) srcStat destStat src dest) \<and>
      snd (checkPaths_cb api src dest opts w) = w)"
  using checkPathsSync_class[of api src dest opts w srcStat destStat w']
  by (simp add: getStats_a_eq getStats_cb_eq checkPaths_a_eq checkPaths_cb_eq)

theorem checkPaths_priority_witness:
  "getStatsSync (memsys ''/w'') ''/s'' ''/s/a'' noOpts fsTwo =
     (Inr (\<lparr>st_kind = Directory, st_mode = 493, st_atime = 1000, st_mtime = 2000,
            st_dev = 1, st_ino = 2\<rparr>,
           Some \<lparr>st_kind = RegularFile, st_mode = 420, st_atime = 1000, st_mtime = 2000,
                 st_dev = 1, st_ino = 3\<rparr>), fsTwo) \<and>
   getStats_a (memsys ''/w'') ''/s'' ''/s/a'' noOpts fsTwo =
     (Inr (\<lparr>st_kind = Directory, st_mode = 493, st_atime = 1000, st_mtime = 2000,
            st_dev = 1, st_ino = 2\<rparr>,
           Some \<lparr>st_kind = RegularFile, st_mode = 420, st_atime = 1000, st_mtime = 2000,
                 st_dev = 1, st_ino = 3\<rparr>), fsTwo) \<and>
   getStats_cb (memsys ''/w'') ''/s'' ''/s/a'' noOpts fsTwo =
     (Inr (\<lparr>st_kind = Directory, st_mode = 493, st_atime = 1000, st_mtime = 2000,
            st_dev = 1, st_ino = 2\<rparr>,
           Some \<lparr>st_kind = RegularFile, st_mode = 420, st_atime = 1000, st_mtime = 2000,
                 st_dev = 1, st_ino = 3\<rparr>), fsTwo) \<and>
   isSrcSubdir ''/w'' ''/s'' ''/s/a'' \<and>
   classOf (fst (checkPathsSync (memsys ''/w'') ''/s'' ''/s/a'' noOpts fsTwo)) =
     Some (Inl (ERR_FS_COPY_DIR_TO_NON_DIR, EISDIR)) \<and>
   classOf (fst (checkPaths_a (memsys ''/w'') ''/s'' ''/s/a'' noOpts fsTwo)) =
     Some (Inl (ERR_FS_COPY_DIR_TO_NON_DIR, EISDIR)) \<and>
   classOf (fst (checkPaths_cb (memsys ''/w'') ''/s'' ''/s/a'' noOpts fsTwo)) =
     Some (Inl (ERR_FS_COPY_DIR_TO_NON_DIR, EISDIR))"
proof -
  let ?s = "\<lparr>st_kind = Directory, st_mode = 493, st_atime = 1000, st_mtime = 2000,
             st_dev = 1, st_ino = 2\<rparr>"
  let ?a = "\<lparr>st_kind = RegularFile, st_mode = 420, st_atime = 1000, st_mtime = 2000,
             st_dev = 1, st_ino = 3\<rparr>"
  have g1: "getStatsSync (memsys ''/w'') ''/s'' ''/s/a'' noOpts fsTwo = (Inr (?s, Some ?a), fsTwo)"
    by code_simp
  have g2: "getStats_a (memsys ''/w'') ''/s'' ''/s/a'' noOpts fsTwo = (Inr (?s, Some ?a), fsTwo)"
    by code_simp
  have g3: "getStats_cb (memsys ''/w'') ''/s'' ''/s/a'' noOpts fsTwo = (Inr (?s, Some ?a), fsTwo)"
    by code_simp
  have sub: "isSrcSubdir ''/w'' ''/s'' ''/s/a''"
    by code_simp
  have sp: "checkPathsSpec (sys_cwd (memsys ''/w'')) ?s (Some ?a) ''/s'' ''/s/a'' =
      Inl (ERR_FS_COPY_DIR_TO_NON_DIR, EISDIR)"
    by code_simp
  show ?thesis
    using checkPaths_priority[of "memsys ''/w''" "''/s''" "''/s/a''" noOpts fsTwo ?s "Some ?a" fsTwo]
      g1 g2 g3 sub sp by simp
qed

section \<open>The file copier\<close>

lemma bind_call_unfold:
  "bindIO (callIO c g) k w =
     (case g (fst w) of
        Inl e \<Rightarrow> (Inl e, (fst w, snd w @ [c]))
      | Inr f \<Rightarrow> k () (f, snd w @ [c]))"
  by (simp add: bindIO_def callIO_def split: sum.splits)

lemma overwritePolicy_generic:
  assumes run: "run = (if flag then bindIO (callIO (Unlink dest) (\<lambda>f. fs_unlink api f dest)) (\<lambda>_. copy)
                       else if errOnExist then
                         throwIO (CopyError ERR_FS_COPY_EEXIST
                           \<lparr>e_code = ''EEXIST'', e_message = dest @ '' already exists'',
                            e_path = dest, e_syscall = ''copy'', e_errno = EEXIST\<rparr>)
                       else returnIO ())"
    and starts: "\<And>w0. \<exists>rest. snd (snd (copy w0)) = snd w0 @ CopyFile src dest # rest"
  shows "overwritePolicy flag errOnExist api src dest run copy w"
proof (cases flag)
  case True
  show ?thesis
  proof (cases "fs_unlink api (fst w) dest")
    case (Inl e)
    then show ?thesis using True run by (simp add: overwritePolicy_def bind_call_unfold)
  next
    case (Inr f1)
    from starts[of "(f1, snd w @ [Unlink dest])"]
    obtain rest where "snd (snd (copy (f1, snd w @ [Unlink dest]))) =
        snd w @ Unlink dest # CopyFile src dest # rest" by auto
    then show ?thesis using True run Inr by (simp add: overwritePolicy_def bind_call_unfold)
  qed
next
  case False
  then show ?thesis using run by (simp add: overwritePolicy_def throwIO_def returnIO_def)
qed

text \<open>
  C3. For a regular-file pair whose destination exists (\<open>destStat\<close> is not null): with
  the overwrite flag set (\<open>overwrite\<close> in the blocking and the callback dialect, \<open>force\<close>
  in the async dialect) the destination is unlinked and then byte-copied; otherwise,
  with \<open>errorOnExist\<close> set, \<open>ERR_FS_COPY_EEXIST\<close> with errno \<open>EEXIST\<close> is raised and
  nothing is changed; otherwise the operation returns with no call issued and no
  error.
\<close>

theorem mayCopyFile_policy:
  "overwritePolicy (overwrite opts) (errorOnExist opts) api src dest
     (onFile_s api srcStat (Some dstat) src dest opts) (copyFile_s api srcStat src dest opts) w \<and>
   overwritePolicy (force opts) (errorOnExist opts) api src dest
     (onFile_a api srcStat (Some dstat) src dest opts) (copyFile_a api srcStat src dest opts) w \<and>
   overwritePolicy (overwrite opts) (errorOnExist opts) api src dest
     (onFile_cb api srcStat (Some dstat) src dest opts) (copyFile_cb api srcStat src dest opts) w"
proof (intro conjI)
  show "overwritePolicy (overwrite opts) (errorOnExist opts) api src dest
     (onFile_s api srcStat (Some dstat) src dest opts) (copyFile_s api srcStat src dest opts) w"
    by (rule overwritePolicy_generic)
      (simp_all add: onFile_s_def mayCopyFile_s_def io_unlink_def copyFile_starts)
  show "overwritePolicy (force opts) (errorOnExist opts) api src dest
     (onFile_a api srcStat (Some dstat) src dest opts) (copyFile_a api srcStat src dest opts) w"
    by (rule overwritePolicy_generic)
      (simp_all add: onFile_a_def mayCopyFile_a_def io_unlink_def copyFile_starts)
  show "overwritePolicy (overwrite opts) (errorOnExist opts) api src dest
     (onFile_cb api srcStat (Some dstat) src dest opts) (copyFile_cb api srcStat src dest opts) w"
    by (rule overwritePolicy_generic)
      (simp_all add: onFile_cb_def mayCopyFile_cb_def io_unlink_def copyFile_starts)
qed

section \<open>The descriptor of the timestamp path\<close>

text \<open>Once \<open>open\<close> has returned a descriptor, the async and the callback dialect issue
  \<open>close\<close> on it whatever \<open>futimes\<close> reports.\<close>

lemma utimesMillis_closes:
  assumes "fs_open api (fst w) p ''r+'' = Inr (d, f1)"
  shows "snd (snd (utimesMillis_a api p a m w)) = snd w @ [Open p ''r+'', Futimes d a m, Close d]"
    and "snd (snd (utimesMillis_cb api p a m w)) = snd w @ [Open p ''r+'', Futimes d a m, Close d]"
  using assms
  by (auto simp: utimesMillis_a_def utimesMillis_cb_def io_defs prim_defs
      split: sum.splits prod.splits)

text \<open>The blocking dialect does not: when \<open>futimesSync\<close> throws, \<open>closeSync\<close> is not
  reached.\<close>

lemma utimesMillisSync_skips_close:
  assumes "fs_open api (fst w) p ''r+'' = Inr (d, f1)"
    and "fs_futimes api f1 d a m = Inl e"
  shows "utimesMillisSync api p a m w = (Inl e, (f1, snd w @ [Open p ''r+'', Futimes d a m]))"
  using assms
  by (simp add: utimesMillisSync_def io_defs prim_defs)

text \<open>
  C6. The claim: in every dialect the descriptor opened to set the timestamps is
  closed on every exit path, also when setting the times fails. On a volume where
  \<open>futimes\<close> fails, copying the file \<open>/s/a\<close> to \<open>/d\<close> with \<open>preserveTimestamps\<close> in the
  blocking dialect ends with descriptor 101 still open and no \<open>close\<close> issued; the
  async and the callback dialect close it.
\<close>

theorem utimesMillisSync_leaves_descriptor_open:
  "fst (copySyncFn 1 (memsysNoUtimes ''/w'') ''/s/a'' ''/d'' timesOpts fsTwo) =
     Inl (SystemError ''EPERM'') \<and>
   snd (snd (copySyncFn 1 (memsysNoUtimes ''/w'') ''/s/a'' ''/d'' timesOpts fsTwo)) =
     [CopyFile ''/s/a'' ''/d'', Open ''/d'' ''r+'', Futimes 101 5000 2000] \<and>
   m_fds (fst (snd (copySyncFn 1 (memsysNoUtimes ''/w'') ''/s/a'' ''/d'' timesOpts fsTwo))) =
     [(101, ''/d'')] \<and>
   snd (snd (copyFn_a 1 (memsysNoUtimes ''/w'') ''/s/a'' ''/d'' timesOpts fsTwo)) =
     [CopyFile ''/s/a'' ''/d'', Open ''/d'' ''r+'', Futimes 101 5000 2000, Close 101] \<and>
   m_fds (fst (snd (copyFn_a 1 (memsysNoUtimes ''/w'') ''/s/a'' ''/d'' timesOpts fsTwo))) = [] \<and>
   snd (snd (copyFn_cb 1 (memsysNoUtimes ''/w'') ''/s/a'' ''/d'' timesOpts fsTwo)) =
     [CopyFile ''/s/a'' ''/d'', Open ''/d'' ''r+'', Futimes 101 5000 2000, Close 101] \<and>
   m_fds (fst (snd (copyFn_cb 1 (memsysNoUtimes ''/w'') ''/s/a'' ''/d'' timesOpts fsTwo))) = []"
  by code_simp

section \<open>The three dialects compared\<close>

text \<open>
  C1. The claim: the three dialects have the same effects and raise the same errors,
  in particular at the guard that raises \<open>ERR_FS_COPY_SYMLINK_TO_SUBDIRECTORY\<close>.
  Copying the link \<open>/a/l\<close> (to the file \<open>/t/sub\<close>) over the link \<open>/b/l\<close> (to the
  directory \<open>/t\<close>): the blocking dialect raises that error and changes nothing, the
  async and the callback dialect unlink \<open>/b/l\<close> and create the link anew. Copying the
  link \<open>/a/l\<close> with the relative target \<open>sub\<close> to a new path: the blocking and the
  callback dialect create a link to \<open>sub\<close>, the async dialect one to \<open>/a/sub\<close>.
\<close>

theorem dialects_disagree_on_links:
  "fst (copySyncFn 1 (memsys ''/w'') ''/a/l'' ''/b/l'' noOpts fsLinks) =
     Inl (CopyError ERR_FS_COPY_SYMLINK_TO_SUBDIRECTORY
       \<lparr>e_code = ''EINVAL'', e_message = ''cannot overwrite /t with /t/sub'',
        e_path = ''/b/l'', e_syscall = ''copy'', e_errno = EINVAL\<rparr>) \<and>
   snd (snd (copySyncFn 1 (memsys ''/w'') ''/a/l'' ''/b/l'' noOpts fsLinks)) = [] \<and>
   fst (copyFn_a 1 (memsys ''/w'') ''/a/l'' ''/b/l'' noOpts fsLinks) = Inr () \<and>
   snd (snd (copyFn_a 1 (memsys ''/w'') ''/a/l'' ''/b/l'' noOpts fsLinks)) =
     [Unlink ''/b/l'', Symlink ''/t/sub'' ''/b/l''] \<and>
   fst (copyFn_cb 1 (memsys ''/w'') ''/a/l'' ''/b/l'' noOpts fsLinks) = Inr () \<and>
   snd (snd (copyFn_cb 1 (memsys ''/w'') ''/a/l'' ''/b/l'' noOpts fsLinks)) =
     [Unlink ''/b/l'', Symlink ''/t/sub'' ''/b/l''] \<and>
   snd (snd (copySyncFn 1 (memsys ''/w'') ''/a/l'' ''/b/new'' noOpts fsRel)) =
     [Symlink ''sub'' ''/b/new''] \<and>
   snd (snd (copyFn_cb 1 (memsys ''/w'') ''/a/l'' ''/b/new'' noOpts fsRel)) =
     [Symlink ''sub'' ''/b/new''] \<and>
   snd (snd (copyFn_a 1 (memsys ''/w'') ''/a/l'' ''/b/new'' noOpts fsRel)) =
     [Symlink ''/a/sub'' ''/b/new'']"
  by code_simp

section \<open>The target of a copied link\<close>







section \<open>Paths that resolve to the same string\<close>

lemma isSrcSubdir_refl: "isSrcSubdir wd p p"
  by (simp add: isSrcSubdir_prefix)

lemma isSrcSubdir_same_array:
  "normalizePathToArray wd src = normalizePathToArray wd dest \<Longrightarrow> isSrcSubdir wd src dest"
  by (simp add: isSrcSubdir_prefix)

lemma isSrcSubdir_same_resolve:
  "resolve wd [src] = resolve wd [dest] \<Longrightarrow> isSrcSubdir wd src dest"
  by (simp add: isSrcSubdir_prefix normalizePathToArray_def)

text \<open>
  C10, as amended. \<open>isSrcSubdir(p, p)\<close> is true, and so is \<open>isSrcSubdir(src, dest)\<close>
  for two paths with equal component arrays. For a directory \<open>src\<close> and a \<open>dest\<close> that
  resolves to the same path string, \<open>checkPaths\<close> raises \<open>ERR_FS_COPY_TO_SUBDIRECTORY\<close>
  when \<open>dest\<close> does not exist (\<open>destStat\<close> is null, no inode identity observed), when
  it is identical to \<open>src\<close>, and when it is a directory; when \<open>dest\<close> exists as a
  non-directory that is not identical to \<open>src\<close>, it raises
  \<open>ERR_FS_COPY_DIR_TO_NON_DIR\<close>.
\<close>

theorem checkPaths_same_resolved_path:
  "isSrcSubdir wd p p \<and>
   (normalizePathToArray wd src = normalizePathToArray wd dest \<longrightarrow> isSrcSubdir wd src dest) \<and>
   (getStats_a api src dest opts w = (Inr (srcStat, destStat), w') \<and> isDirectory srcStat \<and>
    resolve (sys_cwd api) [src] = resolve (sys_cwd api) [dest] \<longrightarrow>
      classOf (fst (checkPaths_a api src dest opts w)) =
        Some (Inl (case destStat of
                     None \<Rightarrow> (ERR_FS_COPY_TO_SUBDIRECTORY, EINVAL)
                   | Some dstat \<Rightarrow>
                       if areIdentical srcStat dstat \<or> isDirectory dstat
                       then (ERR_FS_COPY_TO_SUBDIRECTORY, EINVAL)
                       else (ERR_FS_COPY_DIR_TO_NON_DIR, EISDIR))))"
proof (intro conjI impI)
  show "isSrcSubdir wd p p" by (rule isSrcSubdir_refl)
next
  assume "normalizePathToArray wd src = normalizePathToArray wd dest"
  then show "isSrcSubdir wd src dest" by (rule isSrcSubdir_same_array)
next
  assume a: "getStats_a api src dest opts w = (Inr (srcStat, destStat), w') \<and> isDirectory srcStat \<and>
    resolve (sys_cwd api) [src] = resolve (sys_cwd api) [dest]"
  then have g: "getStatsSync api src dest opts w = (Inr (srcStat, destStat), w')"
    by (simp add: getStats_a_eq)
  from a have sub: "isSrcSubdir (sys_cwd api) src dest"
    by (simp add: isSrcSubdir_same_resolve)
  from checkPathsSync_class(1)[OF g] a sub
  show "classOf (fst (checkPaths_a api src dest opts w)) =
        Some (Inl (case destStat of
                     None \<Rightarrow> (ERR_FS_COPY_TO_SUBDIRECTORY, EINVAL)
                   | Some dstat \<Rightarrow>
                       if areIdentical srcStat dstat \<or> isDirectory dstat
                       then (ERR_FS_COPY_TO_SUBDIRECTORY, EINVAL)
                       else (ERR_FS_COPY_DIR_TO_NON_DIR, EISDIR)))"
    by (auto simp: checkPaths_a_eq checkPathsSpec_def split: option.splits)
qed

theorem checkPaths_same_resolved_path_witness:
  "normalizePathToArray ''/w'' ''/q/f'' = normalizePathToArray ''/w'' ''/q/f/n/..'' \<and>
   isSrcSubdir ''/w'' ''/q/f'' ''/q/f/n/..'' \<and>
   fst (getStats_a (memsys ''/w'') ''/q/f'' ''/q/f/n/..'' noOpts fsDots) =
     Inr (\<lparr>st_kind = Directory, st_mode = 493, st_atime = 1000, st_mtime = 2000,
            st_dev = 1, st_ino = 3\<rparr>, None) \<and>
   resolve (sys_cwd (memsys ''/w'')) [''/q/f''] = resolve (sys_cwd (memsys ''/w'')) [''/q/f/n/..''] \<and>
   classOf (fst (checkPaths_a (memsys ''/w'') ''/q/f'' ''/q/f/n/..'' noOpts fsDots)) =
     Some (Inl (ERR_FS_COPY_TO_SUBDIRECTORY, EINVAL))"
proof -
  let ?s = "\<lparr>st_kind = Directory, st_mode = 493, st_atime = 1000, st_mtime = 2000,
             st_dev = 1, st_ino = 3\<rparr>"
  have n: "normalizePathToArray ''/w'' ''/q/f'' = normalizePathToArray ''/w'' ''/q/f/n/..''"
    by code_simp
  have g: "getStats_a (memsys ''/w'') ''/q/f'' ''/q/f/n/..'' noOpts fsDots = (Inr (?s, None), fsDots)"
    by code_simp
  have d: "isDirectory ?s" by code_simp
  have r: "resolve (sys_cwd (memsys ''/w'')) [''/q/f''] =
           resolve (sys_cwd (memsys ''/w'')) [''/q/f/n/..'']" by code_simp
  from checkPaths_same_resolved_path[of "''/w''" "''/q/f''" "''/q/f''" "''/q/f/n/..''"
      "memsys ''/w''" noOpts fsDots ?s None fsDots] n g d r
  show ?thesis by simp
qed

text \<open>
  C10, as stated, fails: \<open>/q/f\<close> is a directory and \<open>/q/l/../f\<close> (through the link
  \<open>/q/l\<close>) a regular file; both resolve to \<open>/q/f\<close>, and \<open>checkPaths\<close> raises
  \<open>ERR_FS_COPY_DIR_TO_NON_DIR\<close>, not \<open>ERR_FS_COPY_TO_SUBDIRECTORY\<close>.
\<close>

theorem checkPaths_same_resolved_path_counterexample:
  "resolve ''/w'' [''/q/f''] = resolve ''/w'' [''/q/l/../f''] \<and>
   fst (getStats_a (memsys ''/w'') ''/q/f'' ''/q/l/../f'' noOpts fsDots) =
     Inr (\<lparr>st_kind = Directory, st_mode = 493, st_atime = 1000, st_mtime = 2000,
            st_dev = 1, st_ino = 3\<rparr>,
          Some \<lparr>st_kind = RegularFile, st_mode = 420, st_atime = 1000, st_mtime = 2000,
                st_dev = 1, st_ino = 6\<rparr>) \<and>
   classOf (fst (checkPaths_a (memsys ''/w'') ''/q/f'' ''/q/l/../f'' noOpts fsDots)) =
     Some (Inl (ERR_FS_COPY_DIR_TO_NON_DIR, EISDIR)) \<and>
   classOf (fst (checkPaths_a (memsys ''/w'') ''/q/f'' ''/q/l/../f'' noOpts fsDots)) \<noteq>
     Some (Inl (ERR_FS_COPY_TO_SUBDIRECTORY, EINVAL))"
  by code_simp

section \<open>Timestamps and mode of a file without the write bit\<close>

lemma or_write_bit: "\<not> fileIsNotWritable (m OR 128)"
proof -
  have "(m OR 128) AND (128::int) = (m AND 128) OR (128 AND 128)"
    by (rule bit.conj_disj_distrib2)
  then have "(m OR 128) AND (128::int) = (m AND 128) OR 128" by simp
  then show ?thesis by (simp add: fileIsNotWritable_def or_eq_0_iff)
qed

lemma calls_elim:
  assumes calls: "timestampCalls api md src dest f0 = Some (f6, d, updated)"
  obtains f1 f2 f3 f4 f5 where
    "fs_copyFile api f0 src dest = Inr f1" and
    "fs_chmod api f1 dest (md OR 128) = Inr f2" and
    "fs_stat api f2 src = Inr updated" and
    "fs_open api f2 dest ''r+'' = Inr (d, f3)" and
    "fs_futimes api f3 d (st_atime updated) (st_mtime updated) = Inr f4" and
    "fs_close api f4 d = Inr f5" and
    "fs_chmod api f5 dest md = Inr f6"
  using calls
  by (auto simp: timestampCalls_def split: sum.splits prod.splits)

text \<open>
  C8. With \<open>preserveTimestamps\<close> and a source file whose mode lacks the owner-write
  bit, when the filesystem calls succeed the copy completes without error in each
  dialect: the byte copy, the chmod that adds the write bit (so that the file is
  writable when it is opened), open, futimes with the access and modification times
  of the source as freshly statted, close, and last the chmod to \<open>srcStat.mode\<close>,
  which undoes the transient write bit. The state left is the one that last chmod
  returned.
\<close>

theorem readonly_file_keeps_mode_and_times:
  assumes ro: "fileIsNotWritable (st_mode srcStat)"
    and pt: "preserveTimestamps opts"
    and calls: "timestampCalls api (st_mode srcStat) src dest f0 = Some (f6, d, updated)"
  shows "copyFile_s api srcStat src dest opts (f0, l) =
           (Inr (), (f6, l @ [CopyFile src dest, Chmod dest (st_mode srcStat OR 128),
              Open dest ''r+'', Futimes d (st_atime updated) (st_mtime updated), Close d,
              Chmod dest (st_mode srcStat)])) \<and>
         copyFile_a api srcStat src dest opts (f0, l) = copyFile_s api srcStat src dest opts (f0, l) \<and>
         copyFile_cb api srcStat src dest opts (f0, l) = copyFile_s api srcStat src dest opts (f0, l) \<and>
         \<not> fileIsNotWritable (st_mode srcStat OR 128)"
proof -
  from calls obtain f1 f2 f3 f4 f5 where
    c1: "fs_copyFile api f0 src dest = Inr f1" and
    c2: "fs_chmod api f1 dest (st_mode srcStat OR 128) = Inr f2" and
    c3: "fs_stat api f2 src = Inr updated" and
    c4: "fs_open api f2 dest ''r+'' = Inr (d, f3)" and
    c5: "fs_futimes api f3 d (st_atime updated) (st_mtime updated) = Inr f4" and
    c6: "fs_close api f4 d = Inr f5" and
    c7: "fs_chmod api f5 dest (st_mode srcStat) = Inr f6"
    by (rule calls_elim)
  have s: "copyFile_s api srcStat src dest opts (f0, l) =
           (Inr (), (f6, l @ [CopyFile src dest, Chmod dest (st_mode srcStat OR 128),
              Open dest ''r+'', Futimes d (st_atime updated) (st_mtime updated), Close d,
              Chmod dest (st_mode srcStat)]))"
    using ro pt c1 c2 c3 c4 c5 c6 c7
    by (simp add: copyFile_s_def handleTimestamps_s_def makeFileWritable_s_def setDestMode_s_def
        setDestTimestamps_s_def utimesMillisSync_def io_defs prim_defs)
  have a: "copyFile_a api srcStat src dest opts (f0, l) =
           (Inr (), (f6, l @ [CopyFile src dest, Chmod dest (st_mode srcStat OR 128),
              Open dest ''r+'', Futimes d (st_atime updated) (st_mtime updated), Close d,
              Chmod dest (st_mode srcStat)]))"
    using ro pt c1 c2 c3 c4 c5 c6 c7
    by (simp add: copyFile_a_def handleTimestampsAndMode_a_def makeFileWritable_a_def
        setDestMode_a_def setDestTimestampsAndMode_a_def setDestTimestamps_a_def
        utimesMillis_a_def io_defs prim_defs)
  have c: "copyFile_cb api srcStat src dest opts (f0, l) =
           (Inr (), (f6, l @ [CopyFile src dest, Chmod dest (st_mode srcStat OR 128),
              Open dest ''r+'', Futimes d (st_atime updated) (st_mtime updated), Close d,
              Chmod dest (st_mode srcStat)]))"
    using ro pt c1 c2 c3 c4 c5 c6 c7
    by (simp add: copyFile_cb_def handleTimestampsAndMode_cb_def makeFileWritable_cb_def
        setDestMode_cb_def setDestTimestampsAndMode_cb_def setDestTimestamps_cb_def
        utimesMillis_cb_def io_defs prim_defs)
  show ?thesis using s a c or_write_bit by simp
qed

theorem readonly_file_keeps_mode_and_times_witness:
  "fileIsNotWritable (st_mode statB) \<and> preserveTimestamps timesOpts \<and>
   fs_lstat (memsys ''/w'') (fst fsTwo) ''/s/b'' = Inr statB \<and>
   timestampCalls (memsys ''/w'') (st_mode statB) ''/s/b'' ''/d'' (fst fsTwo) \<noteq> None \<and>
   fst (copyFile_s (memsys ''/w'') statB ''/s/b'' ''/d'' timesOpts fsTwo) = Inr () \<and>
   snd (snd (copyFile_s (memsys ''/w'') statB ''/s/b'' ''/d'' timesOpts fsTwo)) =
     [CopyFile ''/s/b'' ''/d'', Chmod ''/d'' 420, Open ''/d'' ''r+'', Futimes 101 5000 2000,
      Close 101, Chmod ''/d'' 292] \<and>
   fs_lstat (memsys ''/w'') (fst (snd (copyFile_s (memsys ''/w'') statB ''/s/b'' ''/d'' timesOpts fsTwo)))
       ''/d'' =
     Inr \<lparr>st_kind = RegularFile, st_mode = 292, st_atime = 5000, st_mtime = 2000,
          st_dev = 1, st_ino = 100\<rparr> \<and>
   fs_lstat (memsys ''/w'') (fst (snd (copyFile_s (memsys ''/w'') statB ''/s/b'' ''/d'' timesOpts fsTwo)))
       ''/s/b'' =
     Inr \<lparr>st_kind = RegularFile, st_mode = 292, st_atime = 5000, st_mtime = 2000,
          st_dev = 1, st_ino = 4\<rparr>"
proof -
  have ro: "fileIsNotWritable (st_mode statB)" by code_simp
  have pt: "preserveTimestamps timesOpts" by code_simp
  have ls: "fs_lstat (memsys ''/w'') (fst fsTwo) ''/s/b'' = Inr statB" by code_simp
  have ne: "timestampCalls (memsys ''/w'') (st_mode statB) ''/s/b'' ''/d'' (fst fsTwo) \<noteq> None"
    by code_simp
  then obtain f6 d updated where
    calls: "timestampCalls (memsys ''/w'') (st_mode statB) ''/s/b'' ''/d'' (fst fsTwo) =
      Some (f6, d, updated)" by auto
  have w: "fsTwo = (fst fsTwo, [])" by code_simp
  from readonly_file_keeps_mode_and_times[OF ro pt calls, of "[]"] w
  have ok: "fst (copyFile_s (memsys ''/w'') statB ''/s/b'' ''/d'' timesOpts fsTwo) = Inr ()"
    by simp
  have lg: "snd (snd (copyFile_s (memsys ''/w'') statB ''/s/b'' ''/d'' timesOpts fsTwo)) =
     [CopyFile ''/s/b'' ''/d'', Chmod ''/d'' 420, Open ''/d'' ''r+'', Futimes 101 5000 2000,
      Close 101, Chmod ''/d'' 292]" by code_simp
  have d: "fs_lstat (memsys ''/w'') (fst (snd (copyFile_s (memsys ''/w'') statB ''/s/b'' ''/d'' timesOpts fsTwo)))
       ''/d'' =
     Inr \<lparr>st_kind = RegularFile, st_mode = 292, st_atime = 5000, st_mtime = 2000,
          st_dev = 1, st_ino = 100\<rparr>" by code_simp
  have s: "fs_lstat (memsys ''/w'') (fst (snd (copyFile_s (memsys ''/w'') statB ''/s/b'' ''/d'' timesOpts fsTwo)))
       ''/s/b'' =
     Inr \<lparr>st_kind = RegularFile, st_mode = 292, st_atime = 5000, st_mtime = 2000,
          st_dev = 1, st_ino = 4\<rparr>" by code_simp
  from ro pt ls ne ok lg d s show ?thesis by blast
qed

section \<open>The order of the children of a directory\<close>

lemma grows_getStats [grows]:
  "logGrows (getStatsSync api src dest opts)"
  "logGrows (getStats_a api src dest opts)"
  "logGrows (getStats_cb api src dest opts)"
  unfolding getStatsSync_def getStats_a_def getStats_cb_def Let_def
  by (cases "dereference opts"; simp; intro grows)+

lemma grows_pre [grows]:
  "logGrows (readlinkDest api dest)"
  "logGrows (pathExists_a api dest)"
  "logGrows (pathExists_cb api dest)"
  "logGrows (copyLink_s api t dest)"
  "logGrows (copyLink_a api t dest)"
  "logGrows (copyLink_cb api t dest)"
  unfolding readlinkDest_def pathExists_a_def
    pathExists_cb_def copyLink_s_def copyLink_a_def copyLink_cb_def
  by (intro grows)+

lemma grows_checkPaths [grows]:
  "logGrows (checkPathsSync api src dest opts)"
  "logGrows (checkPaths_a api src dest opts)"
  "logGrows (checkPaths_cb api src dest opts)"
  unfolding checkPathsSync_def checkPaths_a_def checkPaths_cb_def
  by (intro grows)+

lemma grows_onLink [grows]:
  "logGrows (onLink_s api destStat src dest opts)"
  "logGrows (onLink_a api destStat src dest)"
  "logGrows (onLink_cb api destStat src dest opts)"
  unfolding onLink_s_def onLink_a_def onLink_cb_def Let_def
  by (intro grows)+

lemma grows_forEach [grows]: "(\<And>x. logGrows (f x)) \<Longrightarrow> logGrows (forEach xs f)"
  by (induction xs) (auto intro!: grows)

lemma grows_runAll: "(\<And>m. m \<in> set ms \<Longrightarrow> logGrows m) \<Longrightarrow> logGrows (runAll ms)"
  by (induction ms) (auto intro!: grows)

lemma grows_startCopy [grows]:
  assumes "\<And>d s t o'. logGrows (g d s t o')"
  shows "logGrows (startCopy_s g destStat src dest opts)"
    and "logGrows (startCopy_a g destStat src dest opts)"
    and "logGrows (startCopy_cb g destStat src dest opts)"
  unfolding startCopy_s_def startCopy_a_def startCopy_cb_def handleFilter_a_def handleFilter_cb_def
  by (intro grows assms)+

lemma grows_child [grows]:
  assumes "\<And>d s t o'. logGrows (g d s t o')"
  shows "logGrows (copyDirItem_s g api item src dest opts)"
    and "logGrows (copyDirChild_a g api item src dest opts)"
    and "logGrows next \<Longrightarrow> logGrows (copyDirItem_cb g api next item src dest opts)"
    and "logGrows (copyDirChild_cb g api item src dest opts)"
  unfolding copyDirItem_s_def copyDirChild_a_def copyDirItem_cb_def copyDirChild_cb_def Let_def
  by (intro grows assms | assumption)+


lemma grows_loop_a [grows]:
  assumes "\<And>d s t o'. logGrows (g d s t o')"
  shows "logGrows (copyDirLoop_a g api dir i src dest opts)"
proof (induction "length dir - i" arbitrary: i)
  case 0
  then show ?case by (subst copyDirLoop_a.simps) (simp add: grows)
next
  case (Suc k)
  then have "logGrows (copyDirLoop_a g api dir (Suc i) src dest opts)" by simp
  then show ?case
    by (subst copyDirLoop_a.simps) (auto simp: Let_def intro!: grows assms)
qed

lemma grows_items_cb [grows]:
  assumes "\<And>d s t o'. logGrows (g d s t o')"
  shows "logGrows (copyDirItems_cb g api items src dest opts)"
proof (induction items rule: rev_induct)
  case Nil
  show ?case by (subst copyDirItems_cb.simps) (simp add: grows)
next
  case (snoc x xs)
  then show ?case
    by (subst copyDirItems_cb.simps) (auto simp: Let_def intro!: grows assms)
qed

lemma grows_dir [grows]:
  assumes "\<And>d s t o'. logGrows (g d s t o')"
  shows "logGrows (copyDir_s g api src dest opts)"
    and "logGrows (copyDir_a g api src dest opts)"
    and "logGrows (copyDir_cb g api src dest opts)"
    and "logGrows (onDir_s g api srcStat destStat src dest opts)"
    and "logGrows (onDir_a g api srcStat destStat src dest opts)"
    and "logGrows (onDir_cb g api srcStat destStat src dest opts)"
  unfolding copyDir_s_def copyDir_a_def copyDir_cb_def onDir_s_def onDir_a_def onDir_cb_def
    mkDirAndCopy_s_def mkDirAndCopy_a_def mkDirAndCopy_cb_def
  by (intro grows assms)+

lemma grows_dispatch [grows]:
  "logGrows (getStats_s n api destStat src dest opts)"
  "logGrows (getStatsForCopy_a n api destStat src dest opts)"
  "logGrows (getStatsForCopy_cb n api destStat src dest opts)"
proof -
  show "logGrows (getStats_s n api destStat src dest opts)"
  proof (induction n arbitrary: destStat src dest opts)
    case 0
    show ?case by (simp add: grows)
  next
    case (Suc n)
    show ?case
      unfolding getStats_s.simps getStatsBody_s_def
      by (cases "dereference opts"; simp; intro grows Suc)
  qed
  show "logGrows (getStatsForCopy_a n api destStat src dest opts)"
  proof (induction n arbitrary: destStat src dest opts)
    case 0
    show ?case by (simp add: grows)
  next
    case (Suc n)
    show ?case
      unfolding getStatsForCopy_a.simps getStatsForCopyBody_a_def
      by (cases "dereference opts"; simp; intro grows Suc)
  qed
  show "logGrows (getStatsForCopy_cb n api destStat src dest opts)"
  proof (induction n arbitrary: destStat src dest opts)
    case 0
    show ?case by (simp add: grows)
  next
    case (Suc n)
    show ?case
      unfolding getStatsForCopy_cb.simps getStatsForCopyBody_cb_def
      by (cases "dereference opts"; simp; intro grows Suc)
  qed
qed











section \<open>The ancestor walk\<close>

text \<open>Resolved paths are a separator followed by canonical components joined by the
  separator; \<open>dirname\<close> of such a path drops the last component.\<close>

lemma splitOn_no_sep: "s \<in> set (splitOn c xs) \<Longrightarrow> c \<notin> set s"
proof (induction xs arbitrary: s)
  case Nil
  then show ?case by simp
next
  case (Cons x xs)
  show ?case
  proof (cases "x = c")
    case True
    with Cons show ?thesis by auto
  next
    case False
    then show ?thesis using Cons by (cases "splitOn c xs") auto
  qed
qed

lemma splitOn_nonempty: "splitOn c xs \<noteq> []"
  by (induction xs) (auto split: list.splits)

lemma splitOn_append_sep:
  "c \<notin> set s \<Longrightarrow> splitOn c (s @ c # rest) = s # splitOn c rest"
  by (induction s) auto

lemma splitOn_plain: "c \<notin> set s \<Longrightarrow> splitOn c s = [s]"
  by (induction s) auto

lemma canon_simps [simp]:
  "canon []"
  "canon (c # cs) = (c \<noteq> [] \<and> sep \<notin> set c \<and> c \<noteq> ''.'' \<and> c \<noteq> ''..'' \<and> canon cs)"
  "canon (as @ bs) = (canon as \<and> canon bs)"
  "canon (rev cs) = canon cs"
  by (auto simp: canon_def)

lemma normSegs_canon:
  "canon stack \<Longrightarrow> (\<And>s. s \<in> set ss \<Longrightarrow> sep \<notin> set s) \<Longrightarrow> canon (normSegs False stack ss)"
proof (induction ss arbitrary: stack)
  case Nil
  then show ?case by simp
next
  case (Cons s ss)
  then have ns: "sep \<notin> set s" and rest: "\<And>t. t \<in> set ss \<Longrightarrow> sep \<notin> set t" by auto
  show ?case
  proof (cases "s = [] \<or> s = ''.''")
    case True
    then show ?thesis using Cons.IH[OF Cons.prems(1) rest] by auto
  next
    case False
    show ?thesis
    proof (cases "s = ''..''")
      case True
      show ?thesis
      proof (cases stack)
        case Nil
        then show ?thesis using True Cons.IH[of "[]"] rest by simp
      next
        case (Cons t ts)
        then have "canon ts" and "t \<noteq> ''..''" using Cons.prems(1) by auto
        then show ?thesis using True Cons Cons.IH[of ts] rest by simp
      qed
    next
      case nd: False
      have "canon (s # stack)" using False nd ns Cons.prems(1) by simp
      then show ?thesis using False nd Cons.IH[of "s # stack"] rest by simp
    qed
  qed
qed

lemma normSegs_push:
  "canon cs \<Longrightarrow> normSegs b stack (cs @ rest) = normSegs b (rev cs @ stack) rest"
  by (induction cs arbitrary: stack) auto

lemma joinSep_Cons: "cs \<noteq> [] \<Longrightarrow> joinSep (c # cs) = c @ sep # joinSep cs"
  by (cases cs) auto

lemma joinSep_snoc: "bs \<noteq> [] \<Longrightarrow> joinSep (bs @ [c]) = joinSep bs @ sep # c"
  by (induction bs rule: joinSep.induct) auto

lemma joinSep_empty: "canon cs \<Longrightarrow> joinSep cs = [] \<longleftrightarrow> cs = []"
  by (induction cs rule: joinSep.induct) auto

lemma splitOn_joinSep:
  "canon cs \<Longrightarrow> cs \<noteq> [] \<Longrightarrow> splitOn sep (joinSep cs @ sep # rest) = cs @ splitOn sep rest"
proof (induction cs rule: joinSep.induct)
  case 1
  then show ?case by simp
next
  case (2 s)
  then show ?case by (simp add: splitOn_append_sep)
next
  case (3 s t ts)
  then show ?case by (simp add: splitOn_append_sep)
qed


lemma resolve_absolute:
  assumes "isAbsolute wd"
  shows "\<exists>cs. canon cs \<and> resolve wd [x] = sep # joinSep cs"
proof -
  from assms have wd: "wd \<noteq> []" by (auto simp: isAbsolute_def)
  obtain p where scan: "resolveScan [x, wd] [] = (p, True)"
    using assms wd by (cases "x = []"; cases "isAbsolute x") auto
  let ?cs = "rev (normSegs False [] (splitOn sep p))"
  have "canon ?cs"
    using normSegs_canon[of "[]" "splitOn sep p"] splitOn_no_sep[of _ sep p] by simp
  moreover have "resolve wd [x] = sep # joinSep ?cs"
    using scan by (simp add: resolve_def normalizeString_def)
  ultimately show ?thesis by blast
qed

lemma resolve_canon:
  assumes "canon cs"
  shows "resolve wd [sep # joinSep cs] = sep # joinSep cs"
proof -
  have scan: "resolveScan [sep # joinSep cs, wd] [] = ((sep # joinSep cs) @ [sep], True)"
    by (simp add: isAbsolute_def)
  have norm: "normSegs False [] (splitOn sep ((sep # joinSep cs) @ [sep])) = rev cs"
  proof (cases "cs = []")
    case True
    then show ?thesis by simp
  next
    case False
    have "splitOn sep ((sep # joinSep cs) @ [sep]) = [] # cs @ [[]]"
      using splitOn_joinSep[OF assms False, of "[]"] by simp
    then show ?thesis using normSegs_push[OF assms, of False "[]" "[[]]"] by simp
  qed
  show ?thesis using scan norm by (simp add: resolve_def normalizeString_def)
qed

lemma nodrop_sep:
  assumes "c \<noteq> []" "sep \<notin> set c"
  shows "dropWhile (\<lambda>x. x = sep) (rev c @ ys) = rev c @ ys"
proof -
  from assms(1) obtain x xs where r: "rev c = x # xs" by (cases "rev c") auto
  then have "set c = set (x # xs)" using set_rev[of c] by simp
  then have "x \<in> set c" by simp
  with assms(2) have "x \<noteq> sep" by auto
  then show ?thesis using r by simp
qed

lemma drop_segment:
  assumes "sep \<notin> set c"
  shows "dropWhile (\<lambda>x. x \<noteq> sep) (rev c @ ys) = dropWhile (\<lambda>x. x \<noteq> sep) ys"
  using assms by (simp add: dropWhile_append)

lemma dirname_rooted:
  "dirname (sep # r) =
     (if rev (dropWhile (\<lambda>x. x \<noteq> sep) (dropWhile (\<lambda>x. x = sep) (rev r))) = [] then [sep]
      else if length (rev (dropWhile (\<lambda>x. x \<noteq> sep) (dropWhile (\<lambda>x. x = sep) (rev r)))) = 1
      then [sep, sep]
      else sep # butlast (rev (dropWhile (\<lambda>x. x \<noteq> sep) (dropWhile (\<lambda>x. x = sep) (rev r)))))"
  by (simp only: dirname_def Let_def list.case simp_thms if_True if_False sep_def)


lemma dropWhile_sep_cons: "dropWhile (\<lambda>x. x \<noteq> sep) (sep # xs) = sep # xs"
  by simp

lemma dirname_canon:
  assumes "canon cs" and "cs \<noteq> []"
  shows "dirname (sep # joinSep cs) = sep # joinSep (butlast cs)"
proof -
  obtain bs c where cs: "cs = bs @ [c]" using assms(2) by (cases cs rule: rev_cases) auto
  with assms(1) have c: "c \<noteq> []" "sep \<notin> set c" and bs: "canon bs" by auto
  show ?thesis
  proof (cases "bs = []")
    case True
    have "dropWhile (\<lambda>x. x = sep) (rev c) = rev c"
      using nodrop_sep[OF c, of "[]"] by (simp only: append_Nil2)
    moreover have "dropWhile (\<lambda>x. x \<noteq> sep) (rev c) = []"
      using drop_segment[OF c(2), of "[]"] by (simp only: append_Nil2 dropWhile.simps)
    ultimately have U: "rev (dropWhile (\<lambda>x. x \<noteq> sep) (dropWhile (\<lambda>x. x = sep) (rev c))) = []"
      by (simp only: rev.simps)
    have "dirname (sep # c) = [sep]"
      by (simp only: dirname_rooted U simp_thms if_True)
    then show ?thesis using True cs by simp
  next
    case False
    then have j: "joinSep cs = joinSep bs @ sep # c" using cs by (simp add: joinSep_snoc)
    have ne: "joinSep bs \<noteq> []" using False bs by (simp add: joinSep_empty)
    have r: "rev (joinSep cs) = rev c @ sep # rev (joinSep bs)" by (simp add: j)
    have "dropWhile (\<lambda>x. x = sep) (rev (joinSep cs)) = rev c @ sep # rev (joinSep bs)"
      unfolding r by (rule nodrop_sep[OF c])
    moreover have "dropWhile (\<lambda>x. x \<noteq> sep) (rev c @ sep # rev (joinSep bs)) =
        sep # rev (joinSep bs)"
      by (simp only: drop_segment[OF c(2)] dropWhile_sep_cons)
    ultimately have U: "rev (dropWhile (\<lambda>x. x \<noteq> sep) (dropWhile (\<lambda>x. x = sep)
        (rev (joinSep cs)))) = joinSep bs @ [sep]"
      by simp
    have l: "length (joinSep bs @ [sep]) \<noteq> 1" using ne by simp
    have "dirname (sep # joinSep cs) = sep # butlast (joinSep bs @ [sep])"
      unfolding dirname_rooted U using l by simp
    then show ?thesis using cs by simp
  qed
qed

lemma canon_root_iff: "canon cs \<Longrightarrow> sep # joinSep cs = parseRoot (sep # joinSep cs) \<longleftrightarrow> cs = []"
  by (auto simp: parseRoot_def isAbsolute_def sep_def joinSep_empty)

lemma joinSep_butlast_shorter:
  "canon cs \<Longrightarrow> cs \<noteq> [] \<Longrightarrow> length (joinSep (butlast cs)) < length (joinSep cs)"
proof (induction cs rule: joinSep.induct)
  case 1
  then show ?case by simp
next
  case (2 s)
  then show ?case by simp
next
  case (3 s t ts)
  then show ?case by (auto split: if_splits)
qed

text \<open>One step up from a resolved parent is strictly shorter.\<close>

lemma parent_shrinks:
  assumes "isAbsolute wd"
    and "resolve wd [dirname dest] \<noteq> parseRoot (resolve wd [dirname dest])"
  shows "length (resolve wd [dirname (resolve wd [dirname dest])]) <
         length (resolve wd [dirname dest])"
proof -
  from resolve_absolute[OF assms(1), of "dirname dest"]
  obtain cs where cs: "canon cs" and r: "resolve wd [dirname dest] = sep # joinSep cs" by blast
  from assms(2) r cs have ne: "cs \<noteq> []" using canon_root_iff[OF cs] by auto
  have cb: "canon (butlast cs)" using cs by (auto simp: canon_def dest: in_set_butlastD)
  have "resolve wd [dirname (resolve wd [dirname dest])] = sep # joinSep (butlast cs)"
    by (simp add: r dirname_canon[OF cs ne] resolve_canon[OF cb])
  then show ?thesis using r joinSep_butlast_shorter[OF cs ne] by simp
qed

lemma walk_unfold:
  "checkParentPathsSync api src srcStat dest f =
     (case walkStep api src srcStat dest f of
        Inl r \<Rightarrow> Some r
      | Inr parent \<Rightarrow> checkParentPathsSync api src srcStat parent f)"
  "checkParentPaths_a api src srcStat dest f =
     (case walkStep api src srcStat dest f of
        Inl r \<Rightarrow> Some r
      | Inr parent \<Rightarrow> checkParentPaths_a api src srcStat parent f)"
  "checkParentPaths_cb api src srcStat dest f =
     (case walkStep api src srcStat dest f of
        Inl r \<Rightarrow> Some r
      | Inr parent \<Rightarrow> checkParentPaths_cb api src srcStat parent f)"
  by (subst checkParentPathsSync.simps checkParentPaths_a.simps checkParentPaths_cb.simps,
      simp add: walkStep_def Let_def split: sum.splits)+

lemma walkStep_parent:
  "walkStep api src srcStat dest f = Inr parent \<Longrightarrow>
     parent = resolve (sys_cwd api) [dirname dest] \<and> parent \<noteq> parseRoot parent"
  by (auto simp: walkStep_def Let_def split: if_splits sum.splits)

lemma walk_returns:
  assumes "isAbsolute (sys_cwd api)"
  shows "\<exists>r. checkParentPathsSync api src srcStat dest f = Some r"
    and "\<exists>r. checkParentPaths_a api src srcStat dest f = Some r"
    and "\<exists>r. checkParentPaths_cb api src srcStat dest f = Some r"
proof -
  show "\<exists>r. checkParentPathsSync api src srcStat dest f = Some r"
  proof (induction "length (resolve (sys_cwd api) [dirname dest])" arbitrary: dest
      rule: less_induct)
    case less
    show ?case
    proof (cases "walkStep api src srcStat dest f")
      case (Inl r)
      then show ?thesis by (subst walk_unfold) simp
    next
      case (Inr parent)
      from walkStep_parent[OF Inr] parent_shrinks[OF assms, of dest]
      have "length (resolve (sys_cwd api) [dirname parent]) <
            length (resolve (sys_cwd api) [dirname dest])" by auto
      from less[OF this] Inr show ?thesis by (subst walk_unfold) simp
    qed
  qed
  show "\<exists>r. checkParentPaths_a api src srcStat dest f = Some r"
  proof (induction "length (resolve (sys_cwd api) [dirname dest])" arbitrary: dest
      rule: less_induct)
    case less
    show ?case
    proof (cases "walkStep api src srcStat dest f")
      case (Inl r)
      then show ?thesis by (subst walk_unfold) simp
    next
      case (Inr parent)
      from walkStep_parent[OF Inr] parent_shrinks[OF assms, of dest]
      have "length (resolve (sys_cwd api) [dirname parent]) <
            length (resolve (sys_cwd api) [dirname dest])" by auto
      from less[OF this] Inr show ?thesis by (subst walk_unfold) simp
    qed
  qed
  show "\<exists>r. checkParentPaths_cb api src srcStat dest f = Some r"
  proof (induction "length (resolve (sys_cwd api) [dirname dest])" arbitrary: dest
      rule: less_induct)
    case less
    show ?case
    proof (cases "walkStep api src srcStat dest f")
      case (Inl r)
      then show ?thesis by (subst walk_unfold) simp
    next
      case (Inr parent)
      from walkStep_parent[OF Inr] parent_shrinks[OF assms, of dest]
      have "length (resolve (sys_cwd api) [dirname parent]) <
            length (resolve (sys_cwd api) [dirname dest])" by auto
      from less[OF this] Inr show ?thesis by (subst walk_unfold) simp
    qed
  qed
qed

text \<open>
  C7. With an absolute working directory (as the process's always is), the ancestor
  walk \<open>checkParentPaths\<close> returns, for every source path, source stat, destination
  path and filesystem, in each dialect. Each recursive call replaces the current path
  by its parent \<open>resolve(dirname(dest))\<close>; the walk stops without error when that parent
  equals \<open>resolve(dirname(src))\<close>, when it equals the root of its own decomposition,
  or when statting it fails with \<open>ENOENT\<close>; any other stat error propagates; and an
  ancestor whose stat is identical to \<open>srcStat\<close> raises \<open>ERR_FS_COPY_TO_SUBDIRECTORY\<close>.
\<close>

theorem checkParentPaths_terminates:
  assumes "isAbsolute (sys_cwd api)"
  shows "(\<exists>r. checkParentPathsSync api src srcStat dest f = Some r) \<and>
         (\<exists>r. checkParentPaths_a api src srcStat dest f = Some r) \<and>
         (\<exists>r. checkParentPaths_cb api src srcStat dest f = Some r) \<and>
         checkParentPathsSync api src srcStat dest f =
           (case walkStep api src srcStat dest f of
              Inl r \<Rightarrow> Some r
            | Inr parent \<Rightarrow> checkParentPathsSync api src srcStat parent f) \<and>
         checkParentPaths_a api src srcStat dest f =
           (case walkStep api src srcStat dest f of
              Inl r \<Rightarrow> Some r
            | Inr parent \<Rightarrow> checkParentPaths_a api src srcStat parent f) \<and>
         checkParentPaths_cb api src srcStat dest f =
           (case walkStep api src srcStat dest f of
              Inl r \<Rightarrow> Some r
            | Inr parent \<Rightarrow> checkParentPaths_cb api src srcStat parent f)"
  using walk_returns[OF assms, of src srcStat dest f] walk_unfold[of api src srcStat dest f]
  by blast

theorem checkParentPaths_terminates_witness:
  "isAbsolute (sys_cwd (memsys ''/w'')) \<and>
   (\<exists>r. checkParentPathsSync (memsys ''/w'') ''/src'' statSrc ''/dst/k/new'' (fst fsAlias) = Some r) \<and>
   checkParentPathsSync (memsys ''/w'') ''/src'' statSrc ''/dst/k/new'' (fst fsAlias) = Some (Inr ()) \<and>
   checkParentPaths_a (memsys ''/w'') ''/src'' statSrc ''/dst/k/new'' (fst fsAlias) = Some (Inr ()) \<and>
   checkParentPaths_cb (memsys ''/w'') ''/src'' statSrc ''/dst/k/new'' (fst fsAlias) = Some (Inr ()) \<and>
   walkStep (memsys ''/w'') ''/src'' statSrc ''/dst/k/new'' (fst fsAlias) = Inr ''/dst/k'' \<and>
   walkStep (memsys ''/w'') ''/src'' statSrc ''/dst/k'' (fst fsAlias) = Inr ''/dst'' \<and>
   walkStep (memsys ''/w'') ''/src'' statSrc ''/dst'' (fst fsAlias) = Inl (Inr ()) \<and>
   walkStep (memsys ''/w'') ''/src'' statSrc ''/dst/none/new'' (fst fsAlias) = Inl (Inr ()) \<and>
   checkParentPathsSync (memsys ''/w'') ''/src'' statSrc ''/dst/b/c'' (fst fsAlias) =
     Some (Inl (CopyError ERR_FS_COPY_TO_SUBDIRECTORY
       \<lparr>e_code = ''EINVAL'',
        e_message = ''cannot copy /src to a subdirectory of self /dst/b/c'',
        e_path = ''/dst/b/c'', e_syscall = ''copy'', e_errno = EINVAL\<rparr>))"
proof -
  have ab: "isAbsolute (sys_cwd (memsys ''/w''))" by code_simp
  note t = checkParentPaths_terminates[OF ab, of "''/src''" statSrc "''/dst/k/new''" "fst fsAlias"]
  from t have ex:
    "\<exists>r. checkParentPathsSync (memsys ''/w'') ''/src'' statSrc ''/dst/k/new'' (fst fsAlias) = Some r"
    by blast
  have v1: "checkParentPathsSync (memsys ''/w'') ''/src'' statSrc ''/dst/k/new'' (fst fsAlias) =
      Some (Inr ())" by code_simp
  have v2: "checkParentPaths_a (memsys ''/w'') ''/src'' statSrc ''/dst/k/new'' (fst fsAlias) =
      Some (Inr ())" by code_simp
  have v3: "checkParentPaths_cb (memsys ''/w'') ''/src'' statSrc ''/dst/k/new'' (fst fsAlias) =
      Some (Inr ())" by code_simp
  have w1: "walkStep (memsys ''/w'') ''/src'' statSrc ''/dst/k/new'' (fst fsAlias) = Inr ''/dst/k''"
    by code_simp
  have w2: "walkStep (memsys ''/w'') ''/src'' statSrc ''/dst/k'' (fst fsAlias) = Inr ''/dst''"
    by code_simp
  have w3: "walkStep (memsys ''/w'') ''/src'' statSrc ''/dst'' (fst fsAlias) = Inl (Inr ())"
    by code_simp
  have w4: "walkStep (memsys ''/w'') ''/src'' statSrc ''/dst/none/new'' (fst fsAlias) = Inl (Inr ())"
    by code_simp
  have v4: "checkParentPathsSync (memsys ''/w'') ''/src'' statSrc ''/dst/b/c'' (fst fsAlias) =
     Some (Inl (CopyError ERR_FS_COPY_TO_SUBDIRECTORY
       \<lparr>e_code = ''EINVAL'',
        e_message = ''cannot copy /src to a subdirectory of self /dst/b/c'',
        e_path = ''/dst/b/c'', e_syscall = ''copy'', e_errno = EINVAL\<rparr>))" by code_simp
  from ab ex v1 v2 v3 w1 w2 w3 w4 v4 show ?thesis by blast
qed

end
